theory Spec2Isabelle
  imports Complex_Main "HOL-Library.Word"
begin

section \<open>Camera capture (cam.py)\<close>

subsection \<open>Data model\<close>

text \<open>
  A frame is what \<^verbatim>\<open>cv2.VideoCapture.read\<close> hands back: an array of shape
  (H, W, C) of unsigned bytes, here a list of rows, each a list of pixels, each a list of
  channel bytes.
\<close>

type_synonym frame = "8 word list list list"

text \<open>\<^verbatim>\<open>np.zeros((h, w, 3), dtype=np.uint8)\<close>\<close>

definition np_zeros3 :: "nat \<Rightarrow> nat \<Rightarrow> nat \<Rightarrow> frame" where
  "np_zeros3 h w c = replicate h (replicate w (replicate c 0))"

text \<open>\<^verbatim>\<open>img.size\<close>: the number of elements (one byte each for uint8).\<close>

definition np_size :: "frame \<Rightarrow> nat" where
  "np_size img = sum_list (map (\<lambda>row. sum_list (map length row)) img)"

text \<open>\<^verbatim>\<open>np.flip(img, axis=2)\<close> and \<^verbatim>\<open>np.flip(img, 1)\<close> on a 3-D array.\<close>

definition np_flip_axis2 :: "frame \<Rightarrow> frame" where
  "np_flip_axis2 img = map (map rev) img"

definition np_flip_axis1 :: "frame \<Rightarrow> frame" where
  "np_flip_axis1 img = map rev img"

text \<open>The array has exactly the shape (h, w, c).\<close>

definition has_shape :: "frame \<Rightarrow> nat \<Rightarrow> nat \<Rightarrow> nat \<Rightarrow> bool" where
  "has_shape img h w c =
     (length img = h \<and> list_all (\<lambda>row. length row = w \<and> list_all (\<lambda>px. length px = c) row) img)"

datatype os_type = Ubuntu | MacOS | OtherOS

datatype py_error = ValueError | NotImplementedError | AttributeError | RuntimeError | IndexError

text \<open>
  What a capture is opened on: \<^verbatim>\<open>device_ptr\<close> starts as the integer 0 and becomes a
  path string in \<^verbatim>\<open>init_ubuntu\<close>; \<^verbatim>\<open>init_mac\<close> opens the integer \<^verbatim>\<open>cam_id\<close>.
\<close>

datatype device = DevIndex int | DevPath string

text \<open>The calls made on the capture library, in order.\<close>

datatype cam_event =
    EvOpen device
  | EvRelease device
  | EvSetProps device
  | EvRead device
  | EvDestroyAllWindows

text \<open>Which thread runs the call: \<^verbatim>\<open>Thread.join\<close> depends on it.\<close>

datatype caller = MainThread | CaptureThread

text \<open>
  The object's attributes. \<open>cam\<close> and \<open>thread\<close> are assigned after construction has
  begun, so each can still be missing (\<open>None\<close>, \<open>False\<close>). \<open>calls\<close> records the calls on
  the capture library and \<open>nreads\<close> counts the reads made so far.
\<close>

record webcam =
  do_mirror :: bool
  shift_colors :: bool
  cam_id :: int
  shape_hw :: "nat \<times> nat"
  img_last :: frame
  device_ptr :: device
  cam :: "device option"
  thread :: bool
  threader_active :: bool
  calls :: "cam_event list"
  nreads :: nat

text \<open>
  The collaborators outside the class: \<^verbatim>\<open>get_os_type()\<close>, \<^verbatim>\<open>glob.glob('/dev/video*')\<close>
  and the device itself, as the image the \<open>n\<close>-th read yields on a device (\<open>None\<close> for
  Python's \<^verbatim>\<open>None\<close>).
\<close>

record cam_env =
  get_os_type :: os_type
  glob_video :: "string list"
  cam_read :: "nat \<Rightarrow> device \<Rightarrow> frame option"

subsection \<open>Operations\<close>

text \<open>\<^verbatim>\<open>WebCam.process_raw_image\<close>\<close>

definition process_raw_image :: "webcam \<Rightarrow> frame \<Rightarrow> frame" where
  "process_raw_image self img =
     (let img1 = (if shift_colors self then np_flip_axis2 img else img);
          img2 = (if do_mirror self then np_flip_axis1 img1 else img1)
      in img2)"

text \<open>\<^verbatim>\<open>WebCam.get_img\<close>\<close>

definition get_img :: "webcam \<Rightarrow> frame" where
  "get_img self = img_last self"

text \<open>
  \<^verbatim>\<open>self.cam.read()\<close>: fails with AttributeError while \<^verbatim>\<open>self.cam\<close> is not assigned,
  otherwise yields what the device gives at this read.
\<close>

definition cam_read_call :: "cam_env \<Rightarrow> webcam \<Rightarrow> (py_error + frame option) \<times> webcam" where
  "cam_read_call env self =
     (case cam self of
        None \<Rightarrow> (Inl AttributeError, self)
      | Some d \<Rightarrow>
          (Inr (cam_read env (nreads self) d),
           self\<lparr>calls := calls self @ [EvRead d], nreads := Suc (nreads self)\<rparr>))"

text \<open>\<^verbatim>\<open>WebCam.get_raw_image\<close>: a bare \<^verbatim>\<open>return\<close> gives \<^verbatim>\<open>None\<close>.\<close>

definition get_raw_image :: "cam_env \<Rightarrow> webcam \<Rightarrow> (py_error + frame option) \<times> webcam" where
  "get_raw_image env self =
     (case cam_read_call env self of
        (Inl e, self1) \<Rightarrow> (Inl e, self1)
      | (Inr img, self1) \<Rightarrow>
          (case img of
             None \<Rightarrow> (Inr None, self1)
           | Some a \<Rightarrow> if np_size a < 100 then (Inr None, self1) else (Inr (Some a), self1)))"

text \<open>
  \<^verbatim>\<open>WebCam.set_cap_props\<close>: four \<^verbatim>\<open>self.cam.set\<close> calls (FPS 30, the MJPG fourcc,
  width, height), recorded as one event; \<^verbatim>\<open>set\<close> reports failure by its return value,
  which the source ignores.
\<close>

definition set_cap_props :: "webcam \<Rightarrow> (py_error + unit) \<times> webcam" where
  "set_cap_props self =
     (case cam self of
        None \<Rightarrow> (Inl AttributeError, self)
      | Some d \<Rightarrow> (Inr (), self\<lparr>calls := calls self @ [EvSetProps d]\<rparr>))"

text \<open>
  \<^verbatim>\<open>WebCam.release\<close>. \<^verbatim>\<open>self.thread.join()\<close> raises AttributeError while
  \<^verbatim>\<open>self.thread\<close> is not assigned and RuntimeError when the capture thread joins itself;
  from another thread it is taken to return (the loop sees \<^verbatim>\<open>threader_active\<close> cleared).
  An exception leaves the assignments made before it in place.
\<close>

definition release :: "caller \<Rightarrow> webcam \<Rightarrow> (py_error + unit) \<times> webcam" where
  "release who self =
     (let self1 = self\<lparr>threader_active := False\<rparr> in
      if \<not> thread self1 then (Inl AttributeError, self1)
      else if who = CaptureThread then (Inl RuntimeError, self1)
      else (case cam self1 of
              None \<Rightarrow> (Inl AttributeError, self1)
            | Some d \<Rightarrow>
                (Inr (),
                 self1\<lparr>calls := calls self1 @
                    [EvRelease d, EvDestroyAllWindows,
                     EvOpen (DevIndex (cam_id self1)), EvRelease (DevIndex (cam_id self1))]\<rparr>)))"

text \<open>\<^verbatim>\<open>str\<close> of an integer, for the f-string \<^verbatim>\<open>f'/dev/video{self.cam_id}'\<close>.\<close>

fun digits10 :: "nat \<Rightarrow> string" where
  "digits10 n =
     (if n < 10 then [char_of (48 + n)]
      else digits10 (n div 10) @ [char_of (48 + n mod 10)])"

definition py_str_int :: "int \<Rightarrow> string" where
  "py_str_int i = (if i < 0 then CHR ''-'' # digits10 (nat (- i)) else digits10 (nat i))"

text \<open>
  Lines 59 to 61 of \<^verbatim>\<open>WebCam.init_ubuntu\<close>, on its locals \<^verbatim>\<open>device_paths\<close> and
  \<^verbatim>\<open>device_ptr\<close> (\<open>paths\<close> and \<open>ptr\<close> here): with the selector -1 and more than one
  path left, the current path is removed from the list and the new first path is taken.
  \<^verbatim>\<open>list.remove\<close> raises ValueError on a missing element and \<^verbatim>\<open>[0]\<close> raises IndexError
  on an empty list.
\<close>

definition next_device :: "webcam \<Rightarrow> string list \<Rightarrow> string \<Rightarrow> py_error + (string list \<times> string)" where
  "next_device self paths ptr =
     (if cam_id self = - 1 \<and> length paths > 1 then
        (if ptr \<notin> set paths then Inl ValueError
         else (case remove1 ptr paths of
                 [] \<Rightarrow> Inl IndexError
               | p # ps \<Rightarrow> Inr (p # ps, p)))
      else Inr (paths, ptr))"

text \<open>
  How one pass through the body of the \<^verbatim>\<open>while True\<close> loop ends: the loop is left (by
  \<^verbatim>\<open>break\<close>, with the final \<^verbatim>\<open>device_ptr\<close>, or by an exception), or it goes round again
  with new locals.
\<close>

datatype pass_end =
    Leave "(py_error + string) \<times> webcam"
  | Again "string list" string webcam

text \<open>
  Lines 58 to 70: the body of the \<^verbatim>\<open>while True\<close> loop of \<^verbatim>\<open>WebCam.init_ubuntu\<close>. The
  pause (\<^verbatim>\<open>time.sleep\<close>) and the prints are left out.
\<close>

definition init_ubuntu_pass ::
  "cam_env \<Rightarrow> caller \<Rightarrow> string list \<Rightarrow> string \<Rightarrow> webcam \<Rightarrow> pass_end"
where
  "init_ubuntu_pass env who paths ptr self =
     (case release who self of
        (Inl e, self1) \<Rightarrow> Leave (Inl e, self1)
      | (Inr u, self1) \<Rightarrow>
          (case next_device self1 paths ptr of
             Inl e \<Rightarrow> Leave (Inl e, self1)
           | Inr (paths1, ptr1) \<Rightarrow>
               (let self2 = self1\<lparr>cam := Some (DevPath ptr1),
                                  calls := calls self1 @ [EvOpen (DevPath ptr1)]\<rparr>
                in case set_cap_props self2 of
                     (Inl e, self3) \<Rightarrow> Leave (Inl e, self3)
                   | (Inr u, self3) \<Rightarrow>
                       (case cam_read_call env self3 of
                          (Inl e, self4) \<Rightarrow> Leave (Inl e, self4)
                        | (Inr img, self4) \<Rightarrow>
                            if img \<noteq> None then Leave (Inr ptr1, self4)
                            else Again paths1 ptr1 self4))))"

text \<open>
  The \<^verbatim>\<open>while True\<close> loop itself: passes are repeated until one leaves. \<open>None\<close> is a
  loop that never leaves.
\<close>

partial_function (option) init_ubuntu_loop ::
  "cam_env \<Rightarrow> caller \<Rightarrow> string list \<Rightarrow> string \<Rightarrow> webcam \<Rightarrow> ((py_error + string) \<times> webcam) option"
where
  "init_ubuntu_loop env who paths ptr self =
     (case init_ubuntu_pass env who paths ptr self of
        Leave r \<Rightarrow> Some r
      | Again paths1 ptr1 self1 \<Rightarrow> init_ubuntu_loop env who paths1 ptr1 self1)"

text \<open>\<^verbatim>\<open>WebCam.init_ubuntu\<close>\<close>

definition init_ubuntu :: "cam_env \<Rightarrow> caller \<Rightarrow> webcam \<Rightarrow> ((py_error + unit) \<times> webcam) option" where
  "init_ubuntu env who self =
     (let paths = glob_video env in
      if length paths = 0 then Some (Inl ValueError, self)
      else
        (let ptr =
               (if cam_id self = - 1 then paths ! 0
                else ''/dev/video'' @ py_str_int (cam_id self));
             self1 = self\<lparr>cam := Some (DevPath ptr),
                          calls := calls self @ [EvOpen (DevPath ptr)]\<rparr>
         in case init_ubuntu_loop env who paths ptr self1 of
              None \<Rightarrow> None
            | Some (Inl e, self2) \<Rightarrow> Some (Inl e, self2)
            | Some (Inr p, self2) \<Rightarrow> Some (Inr (), self2\<lparr>device_ptr := DevPath p\<rparr>)))"

text \<open>\<^verbatim>\<open>WebCam.init_mac\<close>\<close>

definition init_mac :: "webcam \<Rightarrow> webcam" where
  "init_mac self =
     self\<lparr>cam := Some (DevIndex (cam_id self)),
          calls := calls self @ [EvOpen (DevIndex (cam_id self))]\<rparr>"

text \<open>\<^verbatim>\<open>WebCam.smart_init\<close>\<close>

definition smart_init :: "cam_env \<Rightarrow> caller \<Rightarrow> webcam \<Rightarrow> ((py_error + unit) \<times> webcam) option" where
  "smart_init env who self =
     (if get_os_type env = Ubuntu then
        (case init_ubuntu env who self of
           None \<Rightarrow> None
         | Some (Inl e, self1) \<Rightarrow> Some (Inl e, self1)
         | Some (Inr u, self1) \<Rightarrow> Some (set_cap_props self1))
      else if get_os_type env = MacOS then Some (set_cap_props (init_mac self))
      else Some (Inl NotImplementedError, self))"

text \<open>
  \<^verbatim>\<open>WebCam.__init__\<close>: \<open>None\<close> when construction never returns, \<open>Inl\<close> when it raises
  (there is no object then), otherwise the object with its capture thread started.
\<close>

definition WebCam_init :: "cam_env \<Rightarrow> int \<Rightarrow> nat \<times> nat \<Rightarrow> (py_error + webcam) option" where
  "WebCam_init env cam_id0 shape_hw0 =
     (let self = \<lparr>do_mirror = False, shift_colors = True, cam_id = cam_id0,
                  shape_hw = shape_hw0,
                  img_last = np_zeros3 (fst shape_hw0) (snd shape_hw0) 3,
                  device_ptr = DevIndex 0, cam = None, thread = False,
                  threader_active = False, calls = [], nreads = 0\<rparr>
      in case smart_init env MainThread self of
           None \<Rightarrow> None
         | Some (Inl e, self1) \<Rightarrow> Some (Inl e)
         | Some (Inr u, self1) \<Rightarrow> Some (Inr (self1\<lparr>threader_active := True, thread := True\<rparr>)))"

text \<open>
  One pass through the body of the \<^verbatim>\<open>while self.threader_active\<close> loop of
  \<^verbatim>\<open>WebCam.threader_runfunc_cam\<close>, run by the capture thread. The only assignment to
  \<^verbatim>\<open>img_last\<close> outside the constructor is the last branch: the publication of a frame.
\<close>

definition threader_iter :: "cam_env \<Rightarrow> webcam \<Rightarrow> ((py_error + unit) \<times> webcam) option" where
  "threader_iter env self =
     (case get_raw_image env self of
        (Inl e, self1) \<Rightarrow> Some (Inl e, self1)
      | (Inr None, self1) \<Rightarrow>
          (case cam self1 of
             None \<Rightarrow> Some (Inl AttributeError, self1)
           | Some d \<Rightarrow>
               smart_init env CaptureThread
                 (self1\<lparr>calls := calls self1 @
                    [EvRelease d, EvOpen (device_ptr self1), EvRelease (device_ptr self1)]\<rparr>))
      | (Inr (Some img), self1) \<Rightarrow>
          Some (Inr (), self1\<lparr>img_last := process_raw_image self1 img\<rparr>))"

text \<open>Whether the read of this pass yields a frame to publish.\<close>

definition read_ok :: "cam_env \<Rightarrow> webcam \<Rightarrow> bool" where
  "read_ok env self =
     (case fst (get_raw_image env self) of Inr (Some img) \<Rightarrow> True | _ \<Rightarrow> False)"

text \<open>
  The states of an object with configured shape \<open>hw\<close> in which no frame has been published
  yet: the constructed object, and what a pass with a failed read leaves (also when the
  pass ends in an exception).
\<close>

inductive unpublished :: "cam_env \<Rightarrow> nat \<times> nat \<Rightarrow> webcam \<Rightarrow> bool" where
  constructed: "WebCam_init env cid hw = Some (Inr self) \<Longrightarrow> unpublished env hw self"
| failed_pass: "unpublished env hw self \<Longrightarrow> \<not> read_ok env self \<Longrightarrow>
     threader_iter env self = Some (r, self') \<Longrightarrow> unpublished env hw self'"

section \<open>The course of the acquisition loop\<close>

text \<open>
  Terms for stating what \<^verbatim>\<open>init_ubuntu\<close> does with the selector -1 on a list of
  enumerated paths. Before every read the loop moves on to the next path while more than
  one is left, so pass \<open>i\<close> (counted from 0) reads the path at position \<open>i + 1\<close>, and the
  last path from then on.
\<close>

definition tried_path :: "string list \<Rightarrow> nat \<Rightarrow> string" where
  "tried_path paths i = paths ! min (i + 1) (length paths - 1)"

definition tried :: "string list \<Rightarrow> nat \<Rightarrow> device" where
  "tried paths i = DevPath (tried_path paths i)"

text \<open>The path \<^verbatim>\<open>init_ubuntu\<close> opens on entry (its lines 51 to 55).\<close>

definition entry_path :: "cam_env \<Rightarrow> webcam \<Rightarrow> string" where
  "entry_path env self =
     (if cam_id self = - 1 then glob_video env ! 0
      else ''/dev/video'' @ py_str_int (cam_id self))"

text \<open>The list of paths one pass leaves to the next.\<close>

definition next_paths :: "string list \<Rightarrow> string list" where
  "next_paths paths = (if length paths > 1 then tl paths else paths)"

text \<open>
  The calls of one pass that holds the handle \<open>held\<close> and tries the device \<open>d\<close>: those of
  \<^verbatim>\<open>release\<close>, then open, configure, read.
\<close>

definition pass_calls :: "int \<Rightarrow> device \<Rightarrow> device \<Rightarrow> cam_event list" where
  "pass_calls cid held d =
     [EvRelease held, EvDestroyAllWindows, EvOpen (DevIndex cid), EvRelease (DevIndex cid),
      EvOpen d, EvSetProps d, EvRead d]"

text \<open>The object after passes 0 to \<open>k\<close> of the loop, entered holding \<open>held\<close>.\<close>

definition after_passes :: "webcam \<Rightarrow> device \<Rightarrow> string list \<Rightarrow> nat \<Rightarrow> webcam" where
  "after_passes s held paths k =
     s\<lparr>threader_active := False, cam := Some (tried paths k),
       calls := calls s @ concat (map (\<lambda>i. pass_calls (- 1)
                  (if i = 0 then held else tried paths (i - 1)) (tried paths i)) [0..<Suc k]),
       nreads := nreads s + Suc k\<rparr>"

text \<open>
  The object \<^verbatim>\<open>init_ubuntu\<close> returns with when pass \<open>k\<close> is the first whose read yields
  a frame: the first path was opened on entry, passes 0 to \<open>k\<close> ran, and the path read
  last is the selected device.
\<close>

definition acquired :: "webcam \<Rightarrow> string list \<Rightarrow> nat \<Rightarrow> webcam" where
  "acquired self paths k =
     (after_passes
        (self\<lparr>cam := Some (DevPath (paths ! 0)),
              calls := calls self @ [EvOpen (DevPath (paths ! 0))]\<rparr>)
        (DevPath (paths ! 0)) paths k)
     \<lparr>device_ptr := tried paths k\<rparr>"

section \<open>Rendering (gl.py)\<close>

subsection \<open>Key codes\<close>

text \<open>
  The scancodes of SDL2 that the source names (\<^verbatim>\<open>sdl2.SDL_SCANCODE_*\<close>), with the values
  of SDL's \<^verbatim>\<open>SDL_scancode.h\<close>: the letters A to Z are 4 to 29, and the digit row follows in
  keyboard order, 1 to 9 and then 0.
\<close>

definition SDL_SCANCODE_A :: int where "SDL_SCANCODE_A = 4"
definition SDL_SCANCODE_Z :: int where "SDL_SCANCODE_Z = 29"
definition SDL_SCANCODE_1 :: int where "SDL_SCANCODE_1 = 30"
definition SDL_SCANCODE_0 :: int where "SDL_SCANCODE_0 = 39"
definition SDL_SCANCODE_RETURN :: int where "SDL_SCANCODE_RETURN = 40"
definition SDL_SCANCODE_ESCAPE :: int where "SDL_SCANCODE_ESCAPE = 41"
definition SDL_SCANCODE_BACKSPACE :: int where "SDL_SCANCODE_BACKSPACE = 42"
definition SDL_SCANCODE_TAB :: int where "SDL_SCANCODE_TAB = 43"
definition SDL_SCANCODE_SPACE :: int where "SDL_SCANCODE_SPACE = 44"
definition SDL_SCANCODE_F1 :: int where "SDL_SCANCODE_F1 = 58"
definition SDL_SCANCODE_F2 :: int where "SDL_SCANCODE_F2 = 59"
definition SDL_SCANCODE_F3 :: int where "SDL_SCANCODE_F3 = 60"
definition SDL_SCANCODE_F4 :: int where "SDL_SCANCODE_F4 = 61"
definition SDL_SCANCODE_RIGHT :: int where "SDL_SCANCODE_RIGHT = 79"
definition SDL_SCANCODE_LEFT :: int where "SDL_SCANCODE_LEFT = 80"
definition SDL_SCANCODE_DOWN :: int where "SDL_SCANCODE_DOWN = 81"
definition SDL_SCANCODE_UP :: int where "SDL_SCANCODE_UP = 82"
definition SDL_NUM_SCANCODES :: nat where "SDL_NUM_SCANCODES = 512"

text \<open>
  The dictionary literal \<^verbatim>\<open>special_keys_map\<close> in the order it is written, with its
  repeated keys; in a Python dictionary literal the last entry of a key stands.
\<close>

definition special_keys_map :: "(int \<times> int) list" where
  "special_keys_map =
     [(SDL_SCANCODE_RETURN, 13), (SDL_SCANCODE_ESCAPE, 27), (SDL_SCANCODE_BACKSPACE, 8),
      (SDL_SCANCODE_TAB, 9), (SDL_SCANCODE_SPACE, 32),
      (SDL_SCANCODE_F1, 0x700000), (SDL_SCANCODE_F2, 0x710000),
      (SDL_SCANCODE_RETURN, 13), (SDL_SCANCODE_ESCAPE, 27), (SDL_SCANCODE_BACKSPACE, 8),
      (SDL_SCANCODE_TAB, 9), (SDL_SCANCODE_SPACE, 32),
      (SDL_SCANCODE_F1, 0x700000), (SDL_SCANCODE_F2, 0x710000),
      (SDL_SCANCODE_F3, 0x720000), (SDL_SCANCODE_F4, 0x730000),
      (SDL_SCANCODE_RIGHT, 0x270000), (SDL_SCANCODE_LEFT, 0x250000),
      (SDL_SCANCODE_DOWN, 0x280000), (SDL_SCANCODE_UP, 0x260000)]"

text \<open>
  \<^verbatim>\<open>sdl_to_cv2_keycode\<close>. \<^verbatim>\<open>ord(chr(x))\<close> is \<open>x\<close> on the code points reached here. The
  result \<open>None\<close> is Python's \<^verbatim>\<open>None\<close>: the branch \<^verbatim>\<open>elif sdl_keycode == -1: pass\<close> falls off
  the end of the function. The second digit test of the source stands after a \<^verbatim>\<open>return\<close>
  and is never reached; the print is left out.
\<close>

definition sdl_to_cv2_keycode :: "int \<Rightarrow> int option" where
  "sdl_to_cv2_keycode sdl_keycode =
     (if SDL_SCANCODE_A \<le> sdl_keycode \<and> sdl_keycode \<le> SDL_SCANCODE_Z
      then Some (sdl_keycode - SDL_SCANCODE_A + int (of_char CHR ''a''))
      else if SDL_SCANCODE_1 \<le> sdl_keycode \<and> sdl_keycode \<le> SDL_SCANCODE_0
      then Some (sdl_keycode - SDL_SCANCODE_1 + int (of_char CHR ''1''))
      else (case map_of (rev special_keys_map) sdl_keycode of
              Some v \<Rightarrow> Some v
            | None \<Rightarrow> if sdl_keycode = - 1 then None else Some (- 1)))"

subsection \<open>Data model\<close>

text \<open>
  An attribute of a Python object that holds an integer, \<^verbatim>\<open>None\<close>, or has never been
  assigned.
\<close>

datatype pyval = Unset | PyNone | PyInt int

text \<open>
  \<^verbatim>\<open>PeripheralEvent\<close>: the four attributes its constructor assigns, and
  \<^verbatim>\<open>pressed_key_code\<close>, which only the render functions assign.
\<close>

record peripheral_event =
  keycode :: int
  mouse_button_state :: int
  mouse_posX :: int
  mouse_posY :: int
  pressed_key_code :: pyval

text \<open>\<^verbatim>\<open>PeripheralEvent.__init__\<close>\<close>

definition PeripheralEvent :: peripheral_event where
  "PeripheralEvent =
     \<lparr>keycode = - 1, mouse_button_state = - 1, mouse_posX = - 1, mouse_posY = - 1,
      pressed_key_code = Unset\<rparr>"

text \<open>
  An array or tensor: its shape and its elements in row-major order. Element values are
  reals; the rounding of 32-bit floats is not modelled.
\<close>

record tensor =
  shape :: "nat list"
  elems :: "real list"

datatype torch_device = CPU | CUDA

text \<open>
  A numpy array: its contents, and the two grounds on which \<^verbatim>\<open>torch.from_numpy\<close>
  refuses an array. \<open>refused_layout\<close>: the memory layout is one torch cannot alias (a
  negative stride, as \<^verbatim>\<open>np.flip\<close> leaves it, a stride that is no multiple of the item
  size, a foreign byte order). \<open>refused_dtype\<close>: the element type has no torch
  counterpart.
\<close>

record ndarray =
  contents :: tensor
  refused_layout :: bool
  refused_dtype :: bool

text \<open>
  What \<^verbatim>\<open>render\<close> can be handed, by the type tests of the source. A PIL image carries
  the array \<^verbatim>\<open>np.array(image)\<close> makes of it.
\<close>

datatype image =
    TorchTensor torch_device tensor
  | NdArray ndarray
  | PILImage ndarray
  | OtherObject

text \<open>
  \<open>TorchValueError\<close> and \<open>TorchTypeError\<close> are the ValueError and TypeError of
  \<^verbatim>\<open>torch.from_numpy\<close>, \<open>TorchRuntimeError\<close> the RuntimeError of \<^verbatim>\<open>permute\<close>.
\<close>

datatype gl_error =
    Exception string
  | CudaException string
  | SDLException
  | OpenGLException string
  | TorchValueError
  | TorchTypeError
  | TorchRuntimeError
  | SystemExit int

text \<open>
  The calls that reach the GPU, the window system or the display, in order. Arithmetic
  on a tensor that already lives on the device is not recorded. \<open>GlDraw\<close> stands for
  the calls of \<^verbatim>\<open>gl_draw_internal\<close> and \<open>GlClose\<close> for those of \<^verbatim>\<open>gl_close\<close>.
\<close>

datatype gpu_call =
    ToCuda
  | SDL_Init
  | CudaGLGetDevices
  | CudaGraphicsGLRegisterImage
  | CudaGraphicsMapResources
  | CudaGraphicsSubResourceGetMappedArray
  | CudaMemcpy2DToArrayAsync nat nat
  | CudaGraphicsUnmapResources
  | SDL_PollEvent
  | GlDraw
  | GlClose
  | Cv2Imshow
  | Cv2WaitKey
  | Cv2DestroyAllWindows

datatype backend = GL | OpenCV

record renderer =
  window_title :: string
  gpu_id :: int
  width :: nat
  height :: nat
  backend :: backend
  cuda_is_setup :: bool
  running :: bool
  gpu_calls :: "gpu_call list"

text \<open>
  One event delivered by \<^verbatim>\<open>SDL_PollEvent\<close>: whether it is the window-close event, the
  keyboard state array at that moment (\<^verbatim>\<open>SDL_GetKeyboardState\<close> hands out SDL's own array,
  which follows the events), the button mask \<^verbatim>\<open>SDL_GetMouseState\<close> returns, and the
  value it leaves in the one variable both of its output arguments point to.
\<close>

record poll =
  window_close :: bool
  key_states :: "nat \<Rightarrow> bool"
  mouse_state :: int
  mouse_written :: int

text \<open>
  What the libraries answer during one call of \<^verbatim>\<open>render\<close>: the exception the
  transfer \<^verbatim>\<open>.to(f'cuda:{self.gpu_id}')\<close> raises, if it raises one, whether each CUDA or
  SDL call succeeds, the events of the poll window, and the key \<^verbatim>\<open>cv2.waitKey(1)\<close>
  returns.
\<close>

record gl_env =
  to_cuda_error :: "gl_error option"
  sdl_init_ok :: bool
  gl_devices_unknown :: bool
  register_ok :: bool
  map_ok :: bool
  get_array_ok :: bool
  copy_ok :: bool
  unmap_ok :: bool
  polls :: "poll list"
  cv2_key :: int

definition call :: "gpu_call \<Rightarrow> renderer \<Rightarrow> renderer" where
  "call c self = self\<lparr>gpu_calls := gpu_calls self @ [c]\<rparr>"

subsection \<open>Presentation and input sampling\<close>

text \<open>\<^verbatim>\<open>Renderer.gl_close\<close>\<close>

definition gl_close :: "renderer \<Rightarrow> renderer" where
  "gl_close self = call GlClose (self\<lparr>running := False\<rparr>)"

text \<open>\<^verbatim>\<open>Renderer.gl_draw_internal\<close>\<close>

definition gl_draw_internal :: "renderer \<Rightarrow> renderer" where
  "gl_draw_internal self = call GlDraw self"

text \<open>
  The \<^verbatim>\<open>for key_code in range(sdl2.SDL_NUM_SCANCODES)\<close> loop of \<^verbatim>\<open>gl_step\<close> over the
  local \<^verbatim>\<open>pressed_key_code\<close>. The two statements on \<^verbatim>\<open>key_press_tracker_array\<close> in its
  branches are comparisons (\<^verbatim>\<open>==\<close>), not assignments, so the array is only read.
\<close>

definition scan_keys :: "(nat \<Rightarrow> bool) \<Rightarrow> (nat \<Rightarrow> int) \<Rightarrow> int \<Rightarrow> int" where
  "scan_keys ks key_press_tracker_array pressed =
     foldl (\<lambda>p key_code.
              if ks key_code \<and> key_press_tracker_array key_code = 0 then int key_code
              else if \<not> ks key_code \<and> key_press_tracker_array key_code = 1 then p
              else p)
       pressed [0..<SDL_NUM_SCANCODES]"

text \<open>
  The \<^verbatim>\<open>while sdl2.SDL_PollEvent(...)\<close> loop of \<^verbatim>\<open>gl_step\<close> over the events of the poll
  window and the locals \<^verbatim>\<open>pressed_key_code\<close>, \<^verbatim>\<open>mouse_buttonstate\<close> and \<^verbatim>\<open>mouse_posX\<close>.
  \<^verbatim>\<open>sys.exit(0)\<close> is the error \<open>SystemExit 0\<close>.
\<close>

fun poll_events ::
  "poll list \<Rightarrow> renderer \<Rightarrow> int \<times> int \<times> int \<Rightarrow> (gl_error + int \<times> int \<times> int) \<times> renderer"
where
  "poll_events [] self locals = (Inr locals, call SDL_PollEvent self)"
| "poll_events (p # ps) self (pressed, mouse_buttonstate, posX) =
     (let self1 = call SDL_PollEvent self;
          mouse_buttonstate1 = mouse_state p;
          posX1 = mouse_written p;
          self2 = (if window_close p then gl_close (self1\<lparr>running := False\<rparr>) else self1)
      in if key_states p (nat SDL_SCANCODE_ESCAPE)
         then (Inl (SystemExit 0), gl_close (self2\<lparr>running := False\<rparr>))
         else poll_events ps self2
                (scan_keys (key_states p) (\<lambda>k. 0) pressed, mouse_buttonstate1, posX1))"

text \<open>\<^verbatim>\<open>Renderer.gl_step\<close>\<close>

definition gl_step :: "gl_env \<Rightarrow> renderer \<Rightarrow> (gl_error + peripheral_event) \<times> renderer" where
  "gl_step env self =
     (case (if running self
            then (case poll_events (polls env) self (- 1, - 1, 0) of
                    (Inl e, self1) \<Rightarrow> (Inl e, self1)
                  | (Inr locals, self1) \<Rightarrow> (Inr locals, gl_draw_internal self1))
            else (Inr (- 1, - 1, 0), self)) of
        (Inl e, self1) \<Rightarrow> (Inl e, self1)
      | (Inr (pressed, mouse_buttonstate, posX), self1) \<Rightarrow>
          (Inr (PeripheralEvent
                  \<lparr>pressed_key_code :=
                     (case sdl_to_cv2_keycode pressed of None \<Rightarrow> PyNone | Some k \<Rightarrow> PyInt k),
                   mouse_button_state := mouse_buttonstate,
                   mouse_posX := posX,
                   mouse_posY := 0\<rparr>),
           self1))"

subsection \<open>The GPU path\<close>

text \<open>\<^verbatim>\<open>Renderer.cuda_setup\<close>\<close>

definition cuda_setup :: "gl_env \<Rightarrow> renderer \<Rightarrow> (gl_error + unit) \<times> renderer" where
  "cuda_setup env self =
     (if cuda_is_setup self then (Inr (), self)
      else
        (let self1 = call SDL_Init self in
         if \<not> sdl_init_ok env then (Inl SDLException, self1)
         else
           (let self2 = call CudaGLGetDevices self1 in
            if gl_devices_unknown env
            then (Inl (OpenGLException ''OpenGL context may be running on integrated graphics''), self2)
            else
              (let self3 = call CudaGraphicsGLRegisterImage self2 in
               if \<not> register_ok env
               then (Inl (CudaException ''Unable to register opengl texture''), self3)
               else (Inr (), self3\<lparr>cuda_is_setup := True\<rparr>)))))"

text \<open>
  \<^verbatim>\<open>torch.from_numpy\<close>: it checks the layout of the array first (ValueError) and its
  element type last (TypeError), and touches no device.
\<close>

definition from_numpy :: "ndarray \<Rightarrow> gl_error + tensor" where
  "from_numpy a =
     (if refused_layout a then Inl TorchValueError
      else if refused_dtype a then Inl TorchTypeError
      else Inr (contents a))"

text \<open>\<^verbatim>\<open>.to(f'cuda:{self.gpu_id}')\<close>: the transfer is attempted, and may raise.\<close>

definition to_cuda :: "gl_env \<Rightarrow> tensor \<Rightarrow> renderer \<Rightarrow> (gl_error + tensor) \<times> renderer" where
  "to_cuda env t self =
     (case to_cuda_error env of
        Some e \<Rightarrow> (Inl e, call ToCuda self)
      | None \<Rightarrow> (Inr t, call ToCuda self))"

text \<open>
  Lines 306 to 317 of \<^verbatim>\<open>gl_render\<close>: the type tests, the conversion to a tensor and
  the transfer to the GPU of whatever is not on it yet.
\<close>

definition place_on_gpu ::
  "gl_env \<Rightarrow> image \<Rightarrow> renderer \<Rightarrow> (gl_error + tensor) \<times> renderer"
where
  "place_on_gpu env img self =
     (case img of
        TorchTensor dev t \<Rightarrow> (if dev = CPU then to_cuda env t self else (Inr t, self))
      | NdArray a \<Rightarrow>
          (case from_numpy a of Inl e \<Rightarrow> (Inl e, self) | Inr t \<Rightarrow> to_cuda env t self)
      | PILImage a \<Rightarrow>
          (case from_numpy a of Inl e \<Rightarrow> (Inl e, self) | Inr t \<Rightarrow> to_cuda env t self)
      | OtherObject \<Rightarrow> (Inl (Exception ''render function received input of unknown type''), self))"

text \<open>\<^verbatim>\<open>image.float() / 255\<close> and \<^verbatim>\<open>torch.clamp(image, 0, 1)\<close>\<close>

definition float_div_255 :: "tensor \<Rightarrow> tensor" where
  "float_div_255 t = t\<lparr>elems := map (\<lambda>x. x / 255) (elems t)\<rparr>"

definition torch_clamp :: "tensor \<Rightarrow> real \<Rightarrow> real \<Rightarrow> tensor" where
  "torch_clamp t lo hi = t\<lparr>elems := map (\<lambda>x. min hi (max lo x)) (elems t)\<rparr>"

text \<open>
  \<^verbatim>\<open>image.permute((1,0,2))\<close>: torch raises a RuntimeError unless the tensor has exactly
  as many dimensions as the permutation names, three.
\<close>

definition permute_1_0_2 :: "tensor \<Rightarrow> gl_error + tensor" where
  "permute_1_0_2 t =
     (case shape t of
        [h, w, c] \<Rightarrow>
          Inr \<lparr>shape = [w, h, c],
               elems = concat (map (\<lambda>j. concat (map (\<lambda>i. map (\<lambda>k. elems t ! ((i * w + j) * c + k))
                                  [0..<c]) [0..<h])) [0..<w])\<rparr>
      | _ \<Rightarrow> Inl TorchRuntimeError)"

text \<open>
  \<^verbatim>\<open>torch.cat((image, ones), -1)\<close> with \<^verbatim>\<open>ones\<close> of shape (a, b, 1), on a tensor of shape
  (a, b, c).
\<close>

definition cat_ones :: "tensor \<Rightarrow> tensor" where
  "cat_ones t =
     (let a = shape t ! 0; b = shape t ! 1; c = shape t ! 2 in
      \<lparr>shape = [a, b, c + 1],
       elems = concat (map (\<lambda>i. concat (map (\<lambda>j. map (\<lambda>k. elems t ! ((i * b + j) * c + k)) [0..<c] @ [1])
                          [0..<b])) [0..<a])\<rparr>)"

text \<open>\<^verbatim>\<open>torch.cat((image, )*4, -1)\<close> on a tensor of shape (a, b): shape (a, 4 * b).\<close>

definition cat_4 :: "tensor \<Rightarrow> tensor" where
  "cat_4 t =
     (let a = shape t ! 0; b = shape t ! 1 in
      \<lparr>shape = [a, 4 * b],
       elems = concat (map (\<lambda>i. concat (replicate 4 (map (\<lambda>j. elems t ! (i * b + j)) [0..<b])))
                          [0..<a])\<rparr>)"

text \<open>Lines 329 to 340 of \<^verbatim>\<open>gl_render\<close>: the check for the number of channels.\<close>

definition check_channels :: "tensor \<Rightarrow> gl_error + tensor" where
  "check_channels t =
     (if length (shape t) = 3 then
        (if shape t ! 2 = 3 then Inr (cat_ones t)
         else if shape t ! 2 = 4 then Inr t
         else Inl (Exception ''render function received the wrong number of channels''))
      else if length (shape t) = 2 then Inr (cat_4 t)
      else Inl (Exception ''render function received the wrong number of channels''))"

text \<open>Lines 320 to 340 of \<^verbatim>\<open>gl_render\<close>: range, clamp, transpose, channels.\<close>

definition normalize :: "tensor \<Rightarrow> gl_error + tensor" where
  "normalize t =
     (case permute_1_0_2 (torch_clamp (float_div_255 t) 0 1) of
        Inl e \<Rightarrow> Inl e
      | Inr t1 \<Rightarrow> check_channels t1)"

text \<open>
  Lines 347 to 369 of \<^verbatim>\<open>gl_render\<close>: map, get the mapped array, copy, unmap. Every
  failure raises at once.
\<close>

definition upload :: "gl_env \<Rightarrow> renderer \<Rightarrow> (gl_error + unit) \<times> renderer" where
  "upload env self =
     (let self1 = call CudaGraphicsMapResources self in
      if \<not> map_ok env then (Inl (CudaException ''Unable to map graphics resource''), self1)
      else
        (let self2 = call CudaGraphicsSubResourceGetMappedArray self1 in
         if \<not> get_array_ok env then (Inl (CudaException ''Unable to get mapped array''), self2)
         else
           (let self3 = call (CudaMemcpy2DToArrayAsync (4 * 4 * width self2) (height self2)) self2 in
            if \<not> copy_ok env
            then (Inl (CudaException ''Unable to copy from tensor to texture''), self3)
            else
              (let self4 = call CudaGraphicsUnmapResources self3 in
               if \<not> unmap_ok env
               then (Inl (CudaException ''Unable to unmap graphics resource''), self4)
               else (Inr (), self4)))))"

text \<open>
  \<^verbatim>\<open>Renderer.gl_render\<close>. The result \<open>Inr None\<close> is the bare \<^verbatim>\<open>return\<close> of a renderer
  that is no longer running.
\<close>

definition gl_render ::
  "gl_env \<Rightarrow> image \<Rightarrow> renderer \<Rightarrow> (gl_error + peripheral_event option) \<times> renderer"
where
  "gl_render env img self =
     (case place_on_gpu env img self of
        (Inl e, self1) \<Rightarrow> (Inl e, self1)
      | (Inr t, self1) \<Rightarrow>
          (case normalize t of
             Inl e \<Rightarrow> (Inl e, self1)
           | Inr t1 \<Rightarrow>
               if \<not> running self1 then (Inr None, self1)
               else
                 (case (if \<not> cuda_is_setup self1 then cuda_setup env self1 else (Inr (), self1)) of
                    (Inl e, self2) \<Rightarrow> (Inl e, self2)
                  | (Inr u, self2) \<Rightarrow>
                      (case upload env self2 of
                         (Inl e, self3) \<Rightarrow> (Inl e, self3)
                       | (Inr u, self3) \<Rightarrow>
                           (case gl_step env self3 of
                              (Inl e, self4) \<Rightarrow> (Inl e, self4)
                            | (Inr ev, self4) \<Rightarrow> (Inr (Some ev), self4))))))"

subsection \<open>The CPU path and the facade\<close>

text \<open>
  \<^verbatim>\<open>Renderer.cv2_render\<close>. The pixels handed to \<^verbatim>\<open>cv2.imshow\<close> (clipped to 0..255, cast
  to bytes) are not part of the result and are not modelled.
\<close>

definition cv2_render ::
  "gl_env \<Rightarrow> image \<Rightarrow> renderer \<Rightarrow> (gl_error + peripheral_event) \<times> renderer"
where
  "cv2_render env img self =
     (case img of
        OtherObject \<Rightarrow> (Inl (Exception ''render function received input of unknown type''), self)
      | _ \<Rightarrow>
          (let self1 = call Cv2WaitKey (call Cv2Imshow self);
               cv2_keycode = cv2_key env
           in if cv2_keycode = 27 then (Inl (SystemExit 0), call Cv2DestroyAllWindows self1)
              else (Inr (PeripheralEvent
                           \<lparr>pressed_key_code := PyInt cv2_keycode,
                            mouse_button_state := - 1,
                            mouse_posX := - 1,
                            mouse_posY := - 1\<rparr>),
                    self1)))"

text \<open>\<^verbatim>\<open>Renderer.render\<close>\<close>

definition render ::
  "gl_env \<Rightarrow> image \<Rightarrow> renderer \<Rightarrow> (gl_error + peripheral_event option) \<times> renderer"
where
  "render env img self =
     (if backend self = GL then gl_render env img self
      else (case cv2_render env img self of
              (Inl e, self1) \<Rightarrow> (Inl e, self1)
            | (Inr ev, self1) \<Rightarrow> (Inr (Some ev), self1)))"

section \<open>Terms for the rendering properties\<close>

text \<open>An array of the given shape filled with one value, as \<^verbatim>\<open>np.full\<close> makes it.\<close>

definition np_full :: "nat list \<Rightarrow> real \<Rightarrow> tensor" where
  "np_full sh v = \<lparr>shape = sh, elems = replicate (prod_list sh) v\<rparr>"

text \<open>A numpy array that \<^verbatim>\<open>torch.from_numpy\<close> accepts.\<close>

definition plain_array :: "tensor \<Rightarrow> ndarray" where
  "plain_array t = \<lparr>contents = t, refused_layout = False, refused_dtype = False\<rparr>"

text \<open>
  The array an image carries, whether it lives in host memory, and the exception its
  conversion to a tensor raises, if it raises one.
\<close>

definition tensor_of :: "image \<Rightarrow> tensor option" where
  "tensor_of img =
     (case img of TorchTensor dev t \<Rightarrow> Some t | NdArray a \<Rightarrow> Some (contents a)
      | PILImage a \<Rightarrow> Some (contents a) | OtherObject \<Rightarrow> None)"

definition conversion_error :: "image \<Rightarrow> gl_error option" where
  "conversion_error img =
     (case img of
        NdArray a \<Rightarrow> (case from_numpy a of Inl e \<Rightarrow> Some e | Inr t \<Rightarrow> None)
      | PILImage a \<Rightarrow> (case from_numpy a of Inl e \<Rightarrow> Some e | Inr t \<Rightarrow> None)
      | _ \<Rightarrow> None)"

definition on_host :: "image \<Rightarrow> bool" where
  "on_host img = (case img of TorchTensor dev t \<Rightarrow> dev = CPU | OtherObject \<Rightarrow> False | _ \<Rightarrow> True)"

text \<open>No key is down in the keyboard state that comes with this event.\<close>

definition no_key_down :: "poll \<Rightarrow> bool" where
  "no_key_down p = list_all (\<lambda>k. \<not> key_states p k) [0..<SDL_NUM_SCANCODES]"

section \<open>Concrete inputs\<close>

text \<open>A Mac without a working camera, and the object its constructor builds for a 1 by 2 frame.\<close>

definition mac_env :: cam_env where
  "mac_env = \<lparr>get_os_type = MacOS, glob_video = [], cam_read = (\<lambda>n d. None)\<rparr>"

definition mac_cam :: webcam where
  "mac_cam = \<lparr>do_mirror = False, shift_colors = True, cam_id = 0, shape_hw = (1, 2),
      img_last = [[[0, 0, 0], [0, 0, 0]]], device_ptr = DevIndex 0,
      cam = Some (DevIndex 0), thread = True, threader_active = True,
      calls = [EvOpen (DevIndex 0), EvSetProps (DevIndex 0)], nreads = 0\<rparr>"

text \<open>A frame of 6 by 6 pixels: 108 bytes.\<close>

definition big_frame :: frame where
  "big_frame = replicate 6 (replicate 6 [1, 2, 3])"

text \<open>
  An Ubuntu machine with a single camera that never yields a frame, and one with two
  cameras of which the second yields a frame from its second read on.
\<close>

definition lone_dead_env :: cam_env where
  "lone_dead_env =
     \<lparr>get_os_type = Ubuntu, glob_video = [''/dev/video0''], cam_read = (\<lambda>n d. None)\<rparr>"

definition two_cam_env :: cam_env where
  "two_cam_env =
     \<lparr>get_os_type = Ubuntu, glob_video = [''/dev/video0'', ''/dev/video1''],
      cam_read = (\<lambda>n d. if d = DevPath ''/dev/video1'' \<and> 1 \<le> n then Some big_frame else None)\<rparr>"

text \<open>An Ubuntu machine with one camera that yields a frame at every read.\<close>

definition working_cam_env :: cam_env where
  "working_cam_env =
     \<lparr>get_os_type = Ubuntu, glob_video = [''/dev/video0''],
      cam_read = (\<lambda>n d. Some big_frame)\<rparr>"

text \<open>
  The attributes \<^verbatim>\<open>WebCam(cam_id=-1)\<close> has assigned when its constructor calls
  \<^verbatim>\<open>smart_init\<close> (lines 33 to 39): neither \<^verbatim>\<open>cam\<close> nor \<^verbatim>\<open>thread\<close> exists yet.
\<close>

definition fresh_cam :: webcam where
  "fresh_cam = \<lparr>do_mirror = False, shift_colors = True, cam_id = - 1, shape_hw = (576, 1024),
      img_last = np_zeros3 576 1024 3, device_ptr = DevIndex 0, cam = None, thread = False,
      threader_active = False, calls = [], nreads = 0\<rparr>"

text \<open>
  An object with the selector -1 whose capture thread exists; the constructor builds none
  on Ubuntu, it serves to run the loop on its own.
\<close>

definition ubuntu_cam :: webcam where
  "ubuntu_cam = \<lparr>do_mirror = False, shift_colors = True, cam_id = - 1, shape_hw = (1, 2),
      img_last = [[[0, 0, 0], [0, 0, 0]]], device_ptr = DevPath ''/dev/video0'',
      cam = Some (DevPath ''/dev/video0''), thread = True, threader_active = True,
      calls = [], nreads = 0\<rparr>"

text \<open>
  A running renderer on the GPU backend with a 1 by 1 texture, libraries that answer every
  call with success and deliver no event, and a white RGBA pixel on the device.
\<close>

definition gl_renderer :: renderer where
  "gl_renderer = \<lparr>window_title = ''lunar_render_window'', gpu_id = 0, width = 1, height = 1,
      backend = GL, cuda_is_setup = True, running = True, gpu_calls = []\<rparr>"

definition ok_env :: gl_env where
  "ok_env = \<lparr>to_cuda_error = None, sdl_init_ok = True, gl_devices_unknown = False, register_ok = True,
      map_ok = True, get_array_ok = True, copy_ok = True, unmap_ok = True,
      polls = [], cv2_key = - 1\<rparr>"

definition white_pixel :: tensor where
  "white_pixel = \<lparr>shape = [1, 1, 4], elems = [255, 255, 255, 255]\<rparr>"

definition rgba_1x1 :: image where
  "rgba_1x1 = TorchTensor CUDA white_pixel"

text \<open>An event that comes with no key down, and one that comes with the key A down.\<close>

definition idle_poll :: poll where
  "idle_poll = \<lparr>window_close = False, key_states = (\<lambda>k. False), mouse_state = 0, mouse_written = 0\<rparr>"

definition key_a_poll :: poll where
  "key_a_poll = \<lparr>window_close = False, key_states = (\<lambda>k. k = 4), mouse_state = 0, mouse_written = 0\<rparr>"

section \<open>Properties of the camera capture\<close>

subsection \<open>Shapes and flips\<close>

lemma has_shape_flip2: "has_shape img h w c \<Longrightarrow> has_shape (np_flip_axis2 img) h w c"
  by (auto simp: has_shape_def np_flip_axis2_def list_all_length)

lemma has_shape_flip1: "has_shape img h w c \<Longrightarrow> has_shape (np_flip_axis1 img) h w c"
  by (auto simp: has_shape_def np_flip_axis1_def list_all_length rev_nth)

lemma flip2_nth:
  "has_shape img h w c \<Longrightarrow> i < h \<Longrightarrow> j < w \<Longrightarrow> k < c \<Longrightarrow>
   np_flip_axis2 img ! i ! j ! k = img ! i ! j ! (c - 1 - k)"
  by (auto simp: has_shape_def np_flip_axis2_def list_all_length rev_nth)

lemma flip1_nth:
  "has_shape img h w c \<Longrightarrow> i < h \<Longrightarrow> j < w \<Longrightarrow>
   np_flip_axis1 img ! i ! j = img ! i ! (w - 1 - j)"
  by (auto simp: has_shape_def np_flip_axis1_def list_all_length rev_nth)

text \<open>
  C7. On a raw frame of shape (h, w, 3), \<^verbatim>\<open>process_raw_image\<close> is the channel flip
  (axis 2), applied when \<^verbatim>\<open>shift_colors\<close> is set, followed by the column flip (axis 1),
  applied when \<^verbatim>\<open>do_mirror\<close> is set. The shape is kept; entry (i, j, k) of the result is
  the entry of the raw frame at column \<open>w - 1 - j\<close> if mirrored and channel \<open>2 - k\<close> if
  colour-shifted; with both flags off the frame is returned unchanged.
\<close>

theorem process_raw_image_pipeline:
  assumes sh: "has_shape img h w 3" and i: "i < h" and j: "j < w" and k: "k < 3"
  shows "process_raw_image self img =
           (if do_mirror self then np_flip_axis1 else id)
             ((if shift_colors self then np_flip_axis2 else id) img)
       \<and> has_shape (process_raw_image self img) h w 3
       \<and> process_raw_image self img ! i ! j ! k =
           img ! i ! (if do_mirror self then w - 1 - j else j)
               ! (if shift_colors self then 2 - k else k)
       \<and> (\<not> shift_colors self \<and> \<not> do_mirror self \<longrightarrow> process_raw_image self img = img)"
proof -
  have jj: "w - 1 - j < w" using j by arith
  show ?thesis
    using sh i j k jj
    by (auto simp: process_raw_image_def Let_def has_shape_flip1 has_shape_flip2
        flip1_nth [OF has_shape_flip2] flip1_nth flip2_nth)
qed

theorem process_raw_image_pipeline_witness:
  "has_shape [[[1, 2, 3], [4, 5, 6]]] 1 2 3
   \<and> process_raw_image (mac_cam\<lparr>do_mirror := True\<rparr>) [[[1, 2, 3], [4, 5, 6]]]
       = [[[6, 5, 4], [3, 2, 1]]]
   \<and> process_raw_image (mac_cam\<lparr>do_mirror := True\<rparr>) [[[1, 2, 3], [4, 5, 6]]] ! 0 ! 0 ! 0 = 6
   \<and> process_raw_image (mac_cam\<lparr>shift_colors := False\<rparr>) [[[1, 2, 3], [4, 5, 6]]]
       = [[[1, 2, 3], [4, 5, 6]]]"
proof -
  have sh: "has_shape [[[1, 2, 3], [4, 5, 6]]] 1 2 3" by (simp add: has_shape_def)
  show ?thesis
    using sh
      process_raw_image_pipeline [OF sh, of 0 0 0 "mac_cam\<lparr>do_mirror := True\<rparr>"]
      process_raw_image_pipeline [OF sh, of 0 0 0 "mac_cam\<lparr>shift_colors := False\<rparr>"]
    by (simp add: mac_cam_def np_flip_axis1_def np_flip_axis2_def)
qed

subsection \<open>Reading a frame\<close>

text \<open>
  C8. With a capture handle in place, \<^verbatim>\<open>get_raw_image\<close> never raises. It returns
  \<^verbatim>\<open>None\<close> exactly when the device read yields \<^verbatim>\<open>None\<close> or an image of fewer than 100
  elements (bytes), and otherwise returns the image it read, unchanged.
\<close>

theorem get_raw_image_read_error:
  assumes c: "cam self = Some d"
  shows "(fst (get_raw_image env self) = Inr None \<longleftrightarrow>
            (cam_read env (nreads self) d = None
             \<or> (\<exists>a. cam_read env (nreads self) d = Some a \<and> np_size a < 100)))
       \<and> (\<forall>a. cam_read env (nreads self) d = Some a \<and> 100 \<le> np_size a \<longrightarrow>
            fst (get_raw_image env self) = Inr (Some a))
       \<and> (\<forall>e. fst (get_raw_image env self) \<noteq> Inl e)"
  using c
  by (auto simp: get_raw_image_def cam_read_call_def split: option.splits)

theorem get_raw_image_read_error_witness:
  "cam mac_cam = Some (DevIndex 0)
   \<and> fst (get_raw_image mac_env mac_cam) = Inr None
   \<and> fst (get_raw_image (mac_env\<lparr>cam_read := (\<lambda>n d. Some [[[1, 2, 3]]])\<rparr>) mac_cam) = Inr None
   \<and> fst (get_raw_image (mac_env\<lparr>cam_read := (\<lambda>n d. Some big_frame)\<rparr>) mac_cam)
       = Inr (Some big_frame)"
proof -
  have c: "cam mac_cam = Some (DevIndex 0)" by (simp add: mac_cam_def)
  have sz: "np_size big_frame = 108" "np_size [[[1, 2, 3]]] = 3"
    by (simp_all add: big_frame_def np_size_def sum_list_replicate)
  show ?thesis
    using c sz get_raw_image_read_error [OF c, of mac_env]
      get_raw_image_read_error [OF c, of "mac_env\<lparr>cam_read := (\<lambda>n d. Some [[[1, 2, 3]]])\<rparr>"]
      get_raw_image_read_error [OF c, of "mac_env\<lparr>cam_read := (\<lambda>n d. Some big_frame)\<rparr>"]
    by (simp add: mac_env_def)
qed

subsection \<open>Nothing but a publication changes the latest frame\<close>

lemma img_last_cam_read_call: "img_last (snd (cam_read_call env s)) = img_last s"
  by (simp add: cam_read_call_def split: option.splits)

lemma img_last_get_raw_image: "img_last (snd (get_raw_image env s)) = img_last s"
  using img_last_cam_read_call [of env s]
  by (auto simp: get_raw_image_def split: prod.splits sum.splits option.splits)

lemma img_last_set_cap_props: "img_last (snd (set_cap_props s)) = img_last s"
  by (simp add: set_cap_props_def split: option.splits)

lemma img_last_release: "img_last (snd (release who s)) = img_last s"
  by (simp add: release_def Let_def split: option.splits)

lemma img_last_init_ubuntu_pass:
  "(case init_ubuntu_pass env who paths ptr s of
      Leave r \<Rightarrow> img_last (snd r) = img_last s
    | Again paths1 ptr1 s1 \<Rightarrow> img_last s1 = img_last s)"
proof -
  obtain r1 s1 where rel: "release who s = (r1, s1)" by (cases "release who s")
  have i1: "img_last s1 = img_last s" using img_last_release [of who s] rel by simp
  show ?thesis
    using rel i1
    by (auto simp: init_ubuntu_pass_def Let_def set_cap_props_def cam_read_call_def
        split: sum.splits prod.splits option.splits)
qed

lemma img_last_init_ubuntu_loop:
  assumes "init_ubuntu_loop env who paths ptr s = Some y"
  shows "img_last (snd y) = img_last s"
  using assms
proof (induction env who paths ptr s y
    rule: init_ubuntu_loop.raw_induct[rotated, consumes 1, case_names step])
  case (step f env who paths ptr s y)
  show ?case
    using step.hyps step.IH
      img_last_init_ubuntu_pass [where env=env and who=who and paths=paths and ptr=ptr and s=s]
    by (auto split: pass_end.splits)
qed

lemma img_last_init_ubuntu:
  "init_ubuntu env who s = Some y \<Longrightarrow> img_last (snd y) = img_last s"
  by (auto simp: init_ubuntu_def Let_def split: if_splits option.splits sum.splits prod.splits
      dest!: img_last_init_ubuntu_loop)

lemma img_last_smart_init:
  "smart_init env who s = Some y \<Longrightarrow> img_last (snd y) = img_last s"
  using img_last_set_cap_props
  by (auto simp: smart_init_def init_mac_def split: if_splits option.splits sum.splits prod.splits
      dest!: img_last_init_ubuntu)

lemma img_last_WebCam_init:
  "WebCam_init env cid hw = Some (Inr s) \<Longrightarrow> img_last s = np_zeros3 (fst hw) (snd hw) 3"
  by (auto simp: WebCam_init_def Let_def split: option.splits sum.splits prod.splits
      dest!: img_last_smart_init)

lemma img_last_failed_pass:
  "\<not> read_ok env s \<Longrightarrow> threader_iter env s = Some (r, s') \<Longrightarrow> img_last s' = img_last s"
  using img_last_get_raw_image [of env s]
  by (auto simp: threader_iter_def read_ok_def
      split: option.splits sum.splits prod.splits dest!: img_last_smart_init)

lemma np_zeros3_shape: "has_shape (np_zeros3 h w c) h w c"
  by (simp add: np_zeros3_def has_shape_def list_all_length)

lemma np_zeros3_zero: "list_all (list_all (list_all (\<lambda>v. v = 0))) (np_zeros3 h w c)"
  by (simp add: np_zeros3_def list_all_length)

lemma mac_cam_constructed: "WebCam_init mac_env 0 (1, 2) = Some (Inr mac_cam)"
  by (simp add: WebCam_init_def smart_init_def mac_env_def init_mac_def set_cap_props_def
      mac_cam_def np_zeros3_def numeral_2_eq_2 numeral_3_eq_3)

lemma mac_cam_failed_pass:
  "\<not> read_ok mac_env mac_cam \<and>
   threader_iter mac_env mac_cam =
     Some (Inr (), mac_cam\<lparr>calls := calls mac_cam @
        [EvRead (DevIndex 0), EvRelease (DevIndex 0), EvOpen (DevIndex 0), EvRelease (DevIndex 0),
         EvOpen (DevIndex 0), EvSetProps (DevIndex 0)], nreads := 1\<rparr>)"
  by (simp add: read_ok_def threader_iter_def get_raw_image_def cam_read_call_def
      smart_init_def mac_env_def init_mac_def set_cap_props_def mac_cam_def)

text \<open>
  C6. In every state in which no frame has been published yet (the constructed object,
  and whatever passes of the capture loop with a failed read make of it), \<^verbatim>\<open>get_img\<close>
  returns the frame of the configured shape (height, width, 3) whose entries are all zero.
\<close>

theorem get_img_before_publish:
  assumes "unpublished env hw self"
  shows "get_img self = np_zeros3 (fst hw) (snd hw) 3
       \<and> has_shape (get_img self) (fst hw) (snd hw) 3
       \<and> list_all (list_all (list_all (\<lambda>v. v = 0))) (get_img self)"
proof -
  from assms have "img_last self = np_zeros3 (fst hw) (snd hw) 3"
  proof (induction rule: unpublished.induct)
    case (constructed env cid hw self)
    then show ?case by (rule img_last_WebCam_init)
  next
    case (failed_pass env hw self r self')
    then show ?case using img_last_failed_pass by simp
  qed
  then show ?thesis
    by (simp add: get_img_def np_zeros3_shape np_zeros3_zero)
qed

theorem get_img_before_publish_witness:
  "unpublished mac_env (1, 2) mac_cam
   \<and> get_img mac_cam = [[[0, 0, 0], [0, 0, 0]]]
   \<and> get_img (mac_cam\<lparr>calls := calls mac_cam @
        [EvRead (DevIndex 0), EvRelease (DevIndex 0), EvOpen (DevIndex 0), EvRelease (DevIndex 0),
         EvOpen (DevIndex 0), EvSetProps (DevIndex 0)], nreads := 1\<rparr>) = np_zeros3 1 2 3"
proof -
  have u0: "unpublished mac_env (1, 2) mac_cam"
    by (rule unpublished.constructed [OF mac_cam_constructed])
  have u1: "unpublished mac_env (1, 2) (mac_cam\<lparr>calls := calls mac_cam @
        [EvRead (DevIndex 0), EvRelease (DevIndex 0), EvOpen (DevIndex 0), EvRelease (DevIndex 0),
         EvOpen (DevIndex 0), EvSetProps (DevIndex 0)], nreads := 1\<rparr>)"
    using unpublished.failed_pass [OF u0] mac_cam_failed_pass by blast
  show ?thesis
    using u0 get_img_before_publish [OF u0] get_img_before_publish [OF u1]
    by (simp add: np_zeros3_def numeral_2_eq_2 numeral_3_eq_3)
qed

subsection \<open>Device acquisition on Ubuntu\<close>

lemma tried_path_0: "paths \<noteq> [] \<Longrightarrow> tried_path paths 0 = hd (next_paths paths)"
  by (cases paths; cases "tl paths") (auto simp: tried_path_def next_paths_def)

lemma tried_0: "paths \<noteq> [] \<Longrightarrow> tried paths 0 = DevPath (hd (next_paths paths))"
  by (simp add: tried_def tried_path_0)

lemma tried_path_Suc: "paths \<noteq> [] \<Longrightarrow> tried_path paths (Suc i) = tried_path (next_paths paths) i"
proof (cases "length paths > 1")
  case True
  assume "paths \<noteq> []"
  then obtain p ps where ps: "paths = p # ps" by (cases paths) auto
  with True have "ps \<noteq> []" by auto
  have "min (Suc i + 1) (length paths - 1) = Suc (min (i + 1) (length ps - 1))"
    using ps \<open>ps \<noteq> []\<close> by (cases ps) auto
  then show ?thesis using True ps by (simp add: tried_path_def next_paths_def)
next
  case False
  assume "paths \<noteq> []"
  with False have "length paths = 1" by (cases paths) auto
  then show ?thesis by (simp add: tried_path_def next_paths_def)
qed

lemma tried_Suc: "paths \<noteq> [] \<Longrightarrow> tried paths (Suc i) = tried (next_paths paths) i"
  by (simp add: tried_def tried_path_Suc)

lemma next_paths_nonempty: "paths \<noteq> [] \<Longrightarrow> next_paths paths \<noteq> []"
  by (cases paths; cases "tl paths") (auto simp: next_paths_def)

lemma next_device_first:
  assumes "cam_id s = - 1" "paths \<noteq> []"
  shows "next_device s paths (hd paths) = Inr (next_paths paths, hd (next_paths paths))"
proof -
  obtain p ps where ps: "paths = p # ps" using assms(2) by (cases paths) auto
  show ?thesis
    using assms(1) ps by (cases ps) (auto simp: next_device_def next_paths_def)
qed

lemma init_ubuntu_pass_first:
  assumes cid: "cam_id s = - 1" and th: "thread s" and c: "cam s = Some held"
    and ne: "paths \<noteq> []"
  shows "init_ubuntu_pass env MainThread paths (hd paths) s =
     (if cam_read env (nreads s) (tried paths 0) \<noteq> None
      then Leave (Inr (hd (next_paths paths)),
                  s\<lparr>threader_active := False, cam := Some (tried paths 0),
                    calls := calls s @ pass_calls (- 1) held (tried paths 0),
                    nreads := Suc (nreads s)\<rparr>)
      else Again (next_paths paths) (hd (next_paths paths))
                 (s\<lparr>threader_active := False, cam := Some (tried paths 0),
                    calls := calls s @ pass_calls (- 1) held (tried paths 0),
                    nreads := Suc (nreads s)\<rparr>))"
  using cid th c
  by (simp add: init_ubuntu_pass_def release_def Let_def next_device_first [OF _ ne]
      set_cap_props_def cam_read_call_def tried_0 [OF ne] pass_calls_def)


lemma upt_Suc_shift: "map F [0..<Suc n] = F 0 # map (\<lambda>i. F (Suc i)) [0..<n]"
  by (simp add: upt_conv_Cons map_Suc_upt [symmetric] del: upt_Suc)

lemma init_ubuntu_loop_returns:
  assumes "cam_id s = - 1" "thread s" "cam s = Some held" "paths \<noteq> []"
    and "cam_read env (nreads s + k) (tried paths k) \<noteq> None"
    and "\<forall>i<k. cam_read env (nreads s + i) (tried paths i) = None"
  shows "init_ubuntu_loop env MainThread paths (hd paths) s =
           Some (Inr (tried_path paths k), after_passes s held paths k)"
  using assms
proof (induction k arbitrary: s held paths)
  case 0
  then show ?case
    by (subst init_ubuntu_loop.simps)
       (simp add: init_ubuntu_pass_first after_passes_def tried_path_0)
next
  case (Suc k)
  let ?s4 = "s\<lparr>threader_active := False, cam := Some (tried paths 0),
                calls := calls s @ pass_calls (- 1) held (tried paths 0),
                nreads := Suc (nreads s)\<rparr>"
  have r0: "cam_read env (nreads s) (tried paths 0) = None"
    using Suc.prems(6) by (auto dest: spec [of _ 0])
  have pass: "init_ubuntu_pass env MainThread paths (hd paths) s =
                Again (next_paths paths) (hd (next_paths paths)) ?s4"
    using Suc.prems r0 by (simp add: init_ubuntu_pass_first)
  have ne: "next_paths paths \<noteq> []" using Suc.prems(4) by (rule next_paths_nonempty)
  have a: "cam_read env (nreads ?s4 + k) (tried (next_paths paths) k) \<noteq> None"
    using Suc.prems(5) by (simp add: tried_Suc [OF Suc.prems(4)])
  have b: "\<forall>i<k. cam_read env (nreads ?s4 + i) (tried (next_paths paths) i) = None"
  proof (intro allI impI)
    fix i assume "i < k"
    then have "cam_read env (nreads s + Suc i) (tried paths (Suc i)) = None"
      using Suc.prems(6) by auto
    then show "cam_read env (nreads ?s4 + i) (tried (next_paths paths) i) = None"
      by (simp add: tried_Suc [OF Suc.prems(4)])
  qed
  have ih: "init_ubuntu_loop env MainThread (next_paths paths) (hd (next_paths paths)) ?s4 =
              Some (Inr (tried_path (next_paths paths) k),
                    after_passes ?s4 (tried paths 0) (next_paths paths) k)"
    using Suc.IH [of ?s4 "tried paths 0" "next_paths paths"] Suc.prems(1,2) ne a b by simp
  have same: "\<And>i. (if i = 0 then tried paths 0 else tried (next_paths paths) (i - 1))
                    = tried paths i"
    by (case_tac i) (simp_all add: tried_Suc [OF Suc.prems(4)])
  have st: "after_passes ?s4 (tried paths 0) (next_paths paths) k = after_passes s held paths (Suc k)"
    unfolding after_passes_def upt_Suc_shift [of _ "Suc k"]
    by (simp add: tried_Suc [OF Suc.prems(4), symmetric] same)
  show ?case
    by (subst init_ubuntu_loop.simps)
       (simp add: pass ih st tried_path_Suc [OF Suc.prems(4)])
qed

lemma init_ubuntu_loop_diverges_aux:
  assumes "init_ubuntu_loop env who paths ptr s = Some y"
  shows "\<not> (who = MainThread \<and> ptr = hd paths \<and> cam_id s = - 1 \<and> thread s \<and> cam s \<noteq> None
            \<and> paths \<noteq> [] \<and> (\<forall>i. cam_read env (nreads s + i) (tried paths i) = None))"
  using assms
proof (induction env who paths ptr s y
    rule: init_ubuntu_loop.raw_induct[rotated, consumes 1, case_names step])
  case (step f env who paths ptr s y)
  show ?case
  proof
    assume inv: "who = MainThread \<and> ptr = hd paths \<and> cam_id s = - 1 \<and> thread s \<and> cam s \<noteq> None
            \<and> paths \<noteq> [] \<and> (\<forall>i. cam_read env (nreads s + i) (tried paths i) = None)"
    then obtain held where held: "cam s = Some held" by auto
    let ?s4 = "s\<lparr>threader_active := False, cam := Some (tried paths 0),
                  calls := calls s @ pass_calls (- 1) held (tried paths 0),
                  nreads := Suc (nreads s)\<rparr>"
    have ne: "paths \<noteq> []" using inv by simp
    have r0: "cam_read env (nreads s) (tried paths 0) = None"
      using inv by (auto dest: spec [of _ 0])
    have pass: "init_ubuntu_pass env who paths ptr s =
                  Again (next_paths paths) (hd (next_paths paths)) ?s4"
      using inv held r0 by (simp add: init_ubuntu_pass_first)
    have rec: "f env who (next_paths paths) (hd (next_paths paths)) ?s4 = Some y"
      using step.hyps pass by simp
    have all: "\<forall>i. cam_read env (nreads ?s4 + i) (tried (next_paths paths) i) = None"
    proof
      fix i
      have "cam_read env (nreads s + Suc i) (tried paths (Suc i)) = None" using inv by blast
      then show "cam_read env (nreads ?s4 + i) (tried (next_paths paths) i) = None"
        by (simp add: tried_Suc [OF ne])
    qed
    show False
      using step.IH [OF rec] inv all next_paths_nonempty [OF ne] by simp
  qed
qed

lemma init_ubuntu_loop_diverges:
  assumes "cam_id s = - 1" "thread s" "cam s = Some held" "paths \<noteq> []"
    and "\<forall>i. cam_read env (nreads s + i) (tried paths i) = None"
  shows "init_ubuntu_loop env MainThread paths (hd paths) s = None"
proof (cases "init_ubuntu_loop env MainThread paths (hd paths) s")
  case None
  then show ?thesis .
next
  case (Some y)
  from init_ubuntu_loop_diverges_aux [OF Some] assms show ?thesis by simp
qed


text \<open>
  The loop taken on its own, on an object whose capture thread exists and from the main
  thread, so that \<^verbatim>\<open>release\<close> completes (the class itself never calls it so, see the
  end of this subsection). On an empty enumeration \<^verbatim>\<open>init_ubuntu\<close> raises ValueError at
  once. Otherwise it returns at the first pass \<open>k\<close> whose read yields a frame, and when
  no pass ever reads a frame it does not return: the loop has no exit for a list that
  is used up.
\<close>

lemma init_ubuntu_first_available:
  assumes cid: "cam_id self = - 1" and th: "thread self"
  shows "(glob_video env = [] \<longrightarrow> init_ubuntu env MainThread self = Some (Inl ValueError, self))
       \<and> (glob_video env \<noteq> []
            \<and> (\<forall>i. cam_read env (nreads self + i) (tried (glob_video env) i) = None)
          \<longrightarrow> init_ubuntu env MainThread self = None)
       \<and> (\<forall>k. glob_video env \<noteq> []
            \<and> cam_read env (nreads self + k) (tried (glob_video env) k) \<noteq> None
            \<and> (\<forall>i<k. cam_read env (nreads self + i) (tried (glob_video env) i) = None)
          \<longrightarrow> init_ubuntu env MainThread self
                = Some (Inr (), acquired self (glob_video env) k))"
proof (intro conjI allI impI)
  assume "glob_video env = []"
  then show "init_ubuntu env MainThread self = Some (Inl ValueError, self)"
    by (simp add: init_ubuntu_def)
next
  let ?paths = "glob_video env"
  let ?s1 = "self\<lparr>cam := Some (DevPath (?paths ! 0)),
                   calls := calls self @ [EvOpen (DevPath (?paths ! 0))]\<rparr>"
  assume a: "?paths \<noteq> [] \<and> (\<forall>i. cam_read env (nreads self + i) (tried ?paths i) = None)"
  then have hd0: "?paths ! 0 = hd ?paths" by (simp add: hd_conv_nth)
  have "init_ubuntu_loop env MainThread ?paths (hd ?paths) ?s1 = None"
    using a cid th by (intro init_ubuntu_loop_diverges [where held = "DevPath (?paths ! 0)"]) simp_all
  then show "init_ubuntu env MainThread self = None"
    using a cid by (simp add: init_ubuntu_def Let_def hd0)
next
  fix k
  let ?paths = "glob_video env"
  let ?s1 = "self\<lparr>cam := Some (DevPath (?paths ! 0)),
                   calls := calls self @ [EvOpen (DevPath (?paths ! 0))]\<rparr>"
  assume a: "?paths \<noteq> [] \<and> cam_read env (nreads self + k) (tried ?paths k) \<noteq> None
            \<and> (\<forall>i<k. cam_read env (nreads self + i) (tried ?paths i) = None)"
  then have hd0: "?paths ! 0 = hd ?paths" by (simp add: hd_conv_nth)
  have "init_ubuntu_loop env MainThread ?paths (hd ?paths) ?s1 =
          Some (Inr (tried_path ?paths k), after_passes ?s1 (DevPath (?paths ! 0)) ?paths k)"
    using a cid th by (intro init_ubuntu_loop_returns) simp_all
  then show "init_ubuntu env MainThread self = Some (Inr (), acquired self ?paths k)"
    using a cid by (simp add: init_ubuntu_def Let_def hd0 acquired_def tried_def)
qed

lemma init_ubuntu_first_available_example:
  "cam_id ubuntu_cam = - 1 \<and> thread ubuntu_cam
   \<and> init_ubuntu two_cam_env MainThread ubuntu_cam
     = Some (Inr (),
         ubuntu_cam\<lparr>threader_active := False, cam := Some (DevPath ''/dev/video1''),
           device_ptr := DevPath ''/dev/video1'', nreads := 2,
           calls := [EvOpen (DevPath ''/dev/video0''),
             EvRelease (DevPath ''/dev/video0''), EvDestroyAllWindows,
             EvOpen (DevIndex (- 1)), EvRelease (DevIndex (- 1)),
             EvOpen (DevPath ''/dev/video1''), EvSetProps (DevPath ''/dev/video1''),
             EvRead (DevPath ''/dev/video1''),
             EvRelease (DevPath ''/dev/video1''), EvDestroyAllWindows,
             EvOpen (DevIndex (- 1)), EvRelease (DevIndex (- 1)),
             EvOpen (DevPath ''/dev/video1''), EvSetProps (DevPath ''/dev/video1''),
             EvRead (DevPath ''/dev/video1'')]\<rparr>)
   \<and> init_ubuntu (lone_dead_env\<lparr>glob_video := []\<rparr>) MainThread ubuntu_cam
     = Some (Inl ValueError, ubuntu_cam)"
proof -
  have c: "cam_id ubuntu_cam = - 1" and t: "thread ubuntu_cam"
    by (simp_all add: ubuntu_cam_def)
  have tr: "tried (glob_video two_cam_env) 0 = DevPath ''/dev/video1''"
     "tried (glob_video two_cam_env) 1 = DevPath ''/dev/video1''"
    by (simp_all add: tried_def tried_path_def two_cam_env_def)
  have rd: "cam_read two_cam_env (nreads ubuntu_cam + 1) (tried (glob_video two_cam_env) 1) \<noteq> None"
     "\<forall>i<1. cam_read two_cam_env (nreads ubuntu_cam + i) (tried (glob_video two_cam_env) i) = None"
    by (simp_all add: tried_def tried_path_def two_cam_env_def ubuntu_cam_def)
  have ne: "glob_video two_cam_env \<noteq> []" by (simp add: two_cam_env_def)
  have acq: "init_ubuntu two_cam_env MainThread ubuntu_cam
               = Some (Inr (), acquired ubuntu_cam (glob_video two_cam_env) 1)"
    using init_ubuntu_first_available [OF c t, of two_cam_env] ne rd by blast
  have emp: "init_ubuntu (lone_dead_env\<lparr>glob_video := []\<rparr>) MainThread ubuntu_cam
               = Some (Inl ValueError, ubuntu_cam)"
    using init_ubuntu_first_available [OF c t, of "lone_dead_env\<lparr>glob_video := []\<rparr>"] by simp
  have st: "acquired ubuntu_cam (glob_video two_cam_env) 1 =
         ubuntu_cam\<lparr>threader_active := False, cam := Some (DevPath ''/dev/video1''),
           device_ptr := DevPath ''/dev/video1'', nreads := 2,
           calls := [EvOpen (DevPath ''/dev/video0''),
             EvRelease (DevPath ''/dev/video0''), EvDestroyAllWindows,
             EvOpen (DevIndex (- 1)), EvRelease (DevIndex (- 1)),
             EvOpen (DevPath ''/dev/video1''), EvSetProps (DevPath ''/dev/video1''),
             EvRead (DevPath ''/dev/video1''),
             EvRelease (DevPath ''/dev/video1''), EvDestroyAllWindows,
             EvOpen (DevIndex (- 1)), EvRelease (DevIndex (- 1)),
             EvOpen (DevPath ''/dev/video1''), EvSetProps (DevPath ''/dev/video1''),
             EvRead (DevPath ''/dev/video1'')]\<rparr>"
    by (simp add: acquired_def after_passes_def tried_def tried_path_def pass_calls_def
        two_cam_env_def ubuntu_cam_def)
  show ?thesis using c t acq emp st by simp
qed

text \<open>
  With one enumerated camera that never yields a frame, the loop on its own neither
  stops at a device nor fails; it never returns.
\<close>

lemma init_ubuntu_never_returns:
  "init_ubuntu lone_dead_env MainThread ubuntu_cam = None"
proof -
  have "init_ubuntu_loop lone_dead_env MainThread [''/dev/video0''] (hd [''/dev/video0''])
          (ubuntu_cam\<lparr>cam := Some (DevPath ''/dev/video0''),
                calls := calls ubuntu_cam @ [EvOpen (DevPath ''/dev/video0'')]\<rparr>) = None"
    by (rule init_ubuntu_loop_diverges [where held = "DevPath ''/dev/video0''"])
       (simp_all add: ubuntu_cam_def lone_dead_env_def)
  then show ?thesis
    by (simp add: init_ubuntu_def lone_dead_env_def ubuntu_cam_def)
qed

lemma WebCam_init_fresh_cam:
  "WebCam_init env (- 1) (576, 1024) =
     (case smart_init env MainThread fresh_cam of
        None \<Rightarrow> None
      | Some (Inl e, self1) \<Rightarrow> Some (Inl e)
      | Some (Inr u, self1) \<Rightarrow> Some (Inr (self1\<lparr>threader_active := True, thread := True\<rparr>)))"
  by (simp add: WebCam_init_def fresh_cam_def)

text \<open>
  C2. The constructor runs the acquisition before \<^verbatim>\<open>self.thread\<close> is assigned, so the
  first \<^verbatim>\<open>release\<close> of the loop raises AttributeError at \<^verbatim>\<open>self.thread.join()\<close>. By then
  \<^verbatim>\<open>init_ubuntu\<close> has only opened the first path: no handle is released, no device is
  read and none is selected, whatever the devices would yield. On Ubuntu with a camera
  enumerated, the constructor therefore always raises and builds no object.
\<close>

theorem init_ubuntu_release_raises:
  assumes "glob_video env \<noteq> []"
  shows "(get_os_type env = Ubuntu \<longrightarrow> WebCam_init env cid hw = Some (Inl AttributeError))
       \<and> (\<not> thread self \<longrightarrow>
            init_ubuntu env who self =
              Some (Inl AttributeError,
                    self\<lparr>threader_active := False, cam := Some (DevPath (entry_path env self)),
                         calls := calls self @ [EvOpen (DevPath (entry_path env self))]\<rparr>))"
proof (intro conjI impI)
  assume "get_os_type env = Ubuntu"
  with assms show "WebCam_init env cid hw = Some (Inl AttributeError)"
    by (simp add: WebCam_init_def smart_init_def init_ubuntu_def Let_def
        init_ubuntu_loop.simps init_ubuntu_pass_def release_def)
next
  assume "\<not> thread self"
  with assms show "init_ubuntu env who self =
              Some (Inl AttributeError,
                    self\<lparr>threader_active := False, cam := Some (DevPath (entry_path env self)),
                         calls := calls self @ [EvOpen (DevPath (entry_path env self))]\<rparr>)"
    by (simp add: init_ubuntu_def Let_def init_ubuntu_loop.simps init_ubuntu_pass_def
        release_def entry_path_def)
qed

theorem init_ubuntu_release_raises_witness:
  "glob_video working_cam_env \<noteq> []
   \<and> cam_read working_cam_env 0 (DevPath ''/dev/video0'') = Some big_frame
   \<and> WebCam_init working_cam_env (- 1) (576, 1024) = Some (Inl AttributeError)
   \<and> init_ubuntu working_cam_env MainThread fresh_cam =
       Some (Inl AttributeError,
             fresh_cam\<lparr>cam := Some (DevPath ''/dev/video0''),
                        calls := [EvOpen (DevPath ''/dev/video0'')]\<rparr>)"
proof -
  have ne: "glob_video working_cam_env \<noteq> []" by (simp add: working_cam_env_def)
  have os: "get_os_type working_cam_env = Ubuntu" by (simp add: working_cam_env_def)
  have th: "\<not> thread fresh_cam" by (simp add: fresh_cam_def)
  have ep: "entry_path working_cam_env fresh_cam = ''/dev/video0''"
    by (simp add: entry_path_def working_cam_env_def fresh_cam_def)
  have rd: "cam_read working_cam_env 0 (DevPath ''/dev/video0'') = Some big_frame"
    by (simp add: working_cam_env_def)
  show ?thesis
    using ne os th rd
      init_ubuntu_release_raises [OF ne, of "- 1" "(576, 1024)" fresh_cam MainThread]
    by (simp add: ep) (simp add: fresh_cam_def)
qed

text \<open>
  The capture loop, for its part, runs the acquisition from the thread that \<^verbatim>\<open>release\<close>
  joins.
\<close>

lemma threader_iter_ubuntu_raises:
  assumes "get_os_type env = Ubuntu" "glob_video env \<noteq> []" "\<not> read_ok env s" "cam s = Some d"
  shows "\<exists>s'. threader_iter env s = Some (Inl RuntimeError, s') \<or> threader_iter env s = Some (Inl AttributeError, s')"
  using assms
  by (auto simp: threader_iter_def read_ok_def smart_init_def init_ubuntu_def Let_def
      init_ubuntu_loop.simps init_ubuntu_pass_def release_def get_raw_image_def cam_read_call_def
      split: option.splits sum.splits prod.splits if_splits)


section \<open>Properties of the rendering\<close>

subsection \<open>Key codes\<close>

lemma map_of_special:
  "map_of (rev special_keys_map) k =
     (if k = 40 then Some 13 else if k = 41 then Some 27 else if k = 42 then Some 8
      else if k = 43 then Some 9 else if k = 44 then Some 32
      else if k = 58 then Some 0x700000 else if k = 59 then Some 0x710000
      else if k = 60 then Some 0x720000 else if k = 61 then Some 0x730000
      else if k = 79 then Some 0x270000 else if k = 80 then Some 0x250000
      else if k = 81 then Some 0x280000 else if k = 82 then Some 0x260000 else None)"
  by (simp add: special_keys_map_def SDL_SCANCODE_RETURN_def SDL_SCANCODE_ESCAPE_def
      SDL_SCANCODE_BACKSPACE_def SDL_SCANCODE_TAB_def SDL_SCANCODE_SPACE_def
      SDL_SCANCODE_F1_def SDL_SCANCODE_F2_def SDL_SCANCODE_F3_def SDL_SCANCODE_F4_def
      SDL_SCANCODE_RIGHT_def SDL_SCANCODE_LEFT_def SDL_SCANCODE_DOWN_def SDL_SCANCODE_UP_def)

lemma sdl_to_cv2_keycode_letters:
  "0 \<le> i \<Longrightarrow> i < 26 \<Longrightarrow> sdl_to_cv2_keycode (SDL_SCANCODE_A + i) = Some (int (of_char CHR ''a'') + i)"
  by (simp add: sdl_to_cv2_keycode_def SDL_SCANCODE_A_def SDL_SCANCODE_Z_def)

lemma sdl_to_cv2_keycode_digits_1_to_9:
  "0 \<le> i \<Longrightarrow> i < 9 \<Longrightarrow> sdl_to_cv2_keycode (SDL_SCANCODE_1 + i) = Some (int (of_char CHR ''1'') + i)"
  by (simp add: sdl_to_cv2_keycode_def SDL_SCANCODE_A_def SDL_SCANCODE_Z_def
      SDL_SCANCODE_1_def SDL_SCANCODE_0_def)

lemma sdl_to_cv2_keycode_special:
  "sdl_to_cv2_keycode SDL_SCANCODE_ESCAPE = Some 27
   \<and> distinct (map sdl_to_cv2_keycode
        [SDL_SCANCODE_F1, SDL_SCANCODE_F2, SDL_SCANCODE_F3, SDL_SCANCODE_F4,
         SDL_SCANCODE_RIGHT, SDL_SCANCODE_LEFT, SDL_SCANCODE_DOWN, SDL_SCANCODE_UP])"
  by (simp add: sdl_to_cv2_keycode_def map_of_special SDL_SCANCODE_A_def SDL_SCANCODE_Z_def
      SDL_SCANCODE_1_def SDL_SCANCODE_0_def SDL_SCANCODE_ESCAPE_def
      SDL_SCANCODE_F1_def SDL_SCANCODE_F2_def SDL_SCANCODE_F3_def SDL_SCANCODE_F4_def
      SDL_SCANCODE_RIGHT_def SDL_SCANCODE_LEFT_def SDL_SCANCODE_DOWN_def SDL_SCANCODE_UP_def)

text \<open>
  C9. The letters, the digits 1 to 9, Escape, the arrows and F1 to F4 are mapped as
  claimed (the three lemmas above), but the scancode of the digit 0 is not mapped to the
  ASCII code of the character 0 (48): being the tenth scancode of the digit row, it is
  mapped to 49 + 9 = 58, the colon.
\<close>

theorem sdl_to_cv2_keycode_digit_0:
  "sdl_to_cv2_keycode SDL_SCANCODE_0 = Some (int (of_char CHR '':''))
   \<and> sdl_to_cv2_keycode SDL_SCANCODE_0 = Some 58
   \<and> sdl_to_cv2_keycode SDL_SCANCODE_0 \<noteq> Some (int (of_char CHR ''0''))"
  by (simp add: sdl_to_cv2_keycode_def SDL_SCANCODE_A_def SDL_SCANCODE_Z_def
      SDL_SCANCODE_1_def SDL_SCANCODE_0_def)

lemma sdl_to_cv2_keycode_no_key: "sdl_to_cv2_keycode (- 1) = None"
  by (simp add: sdl_to_cv2_keycode_def map_of_special SDL_SCANCODE_A_def SDL_SCANCODE_Z_def
      SDL_SCANCODE_1_def SDL_SCANCODE_0_def)

subsection \<open>Input sampling\<close>

lemma foldl_scan_none:
  "list_all (\<lambda>k. \<not> ks k) xs \<Longrightarrow>
   foldl (\<lambda>p key_code. if ks key_code \<and> tr key_code = 0 then int key_code
            else if \<not> ks key_code \<and> tr key_code = 1 then p else p) p0 xs = p0"
  by (induction xs arbitrary: p0) auto

lemma scan_keys_none: "no_key_down p \<Longrightarrow> scan_keys (key_states p) tr p0 = p0"
  unfolding scan_keys_def no_key_down_def by (rule foldl_scan_none)

lemma foldl_scan_single:
  "foldl (\<lambda>p key_code. if key_code = k0 \<and> (0::int) = 0 then int key_code
            else if \<not> key_code = k0 \<and> (0::int) = 1 then p else p) p0 [0..<n]
   = (if k0 < n then int k0 else p0)"
  by (induction n) auto

lemma scan_keys_single:
  "k0 < SDL_NUM_SCANCODES \<Longrightarrow> scan_keys (\<lambda>k. k = k0) (\<lambda>k. 0) p0 = int k0"
  unfolding scan_keys_def using foldl_scan_single [of k0 p0 SDL_NUM_SCANCODES] by simp

lemma poll_events_no_key:
  "list_all no_key_down ps \<Longrightarrow>
   \<exists>mb px self'. poll_events ps self (pressed, mb0, px0) = (Inr (pressed, mb, px), self')"
proof (induction ps arbitrary: self mb0 px0)
  case Nil
  then show ?case by simp
next
  case (Cons p ps)
  then have nk: "no_key_down p" and rest: "list_all no_key_down ps" by simp_all
  have esc: "\<not> key_states p (nat SDL_SCANCODE_ESCAPE)"
    using nk by (simp add: no_key_down_def list_all_iff SDL_SCANCODE_ESCAPE_def SDL_NUM_SCANCODES_def)
  show ?case
    using Cons.IH [OF rest] esc scan_keys_none [OF nk]
    by (simp add: Let_def)
qed

text \<open>
  C5. When no key is down in any event of the poll window, \<^verbatim>\<open>gl_step\<close> returns an
  event whose pressed-key code is \<^verbatim>\<open>None\<close>, not -1: \<^verbatim>\<open>sdl_to_cv2_keycode(-1)\<close> falls
  off the end of the function.
\<close>

theorem gl_step_no_key_gives_None:
  assumes "list_all no_key_down (polls env)"
  shows "\<exists>ev self'. gl_step env self = (Inr ev, self')
           \<and> pressed_key_code ev = PyNone \<and> pressed_key_code ev \<noteq> PyInt (- 1)"
proof (cases "running self")
  case True
  from poll_events_no_key [OF assms, of self "- 1" "- 1" 0]
  obtain mb px self' where "poll_events (polls env) self (- 1, - 1, 0) = (Inr (- 1, mb, px), self')"
    by blast
  then show ?thesis
    using True by (simp add: gl_step_def sdl_to_cv2_keycode_no_key)
next
  case False
  then show ?thesis by (simp add: gl_step_def sdl_to_cv2_keycode_no_key)
qed

theorem gl_step_no_key_gives_None_witness:
  "list_all no_key_down (polls (ok_env\<lparr>polls := [idle_poll]\<rparr>))
   \<and> gl_step (ok_env\<lparr>polls := [idle_poll]\<rparr>) gl_renderer =
       (Inr \<lparr>keycode = - 1, mouse_button_state = 0, mouse_posX = 0, mouse_posY = 0,
             pressed_key_code = PyNone\<rparr>,
        gl_renderer\<lparr>gpu_calls := [SDL_PollEvent, SDL_PollEvent, GlDraw]\<rparr>)"
proof -
  have nk: "no_key_down idle_poll"
    by (simp add: no_key_down_def idle_poll_def list_all_iff)
  then have h: "list_all no_key_down (polls (ok_env\<lparr>polls := [idle_poll]\<rparr>))" by simp
  have esc: "\<not> key_states idle_poll (nat SDL_SCANCODE_ESCAPE)" by (simp add: idle_poll_def)
  have run: "running gl_renderer" by (simp add: gl_renderer_def)
  from gl_step_no_key_gives_None [OF h, of gl_renderer]
  obtain ev self' where ev: "gl_step (ok_env\<lparr>polls := [idle_poll]\<rparr>) gl_renderer = (Inr ev, self')"
      "pressed_key_code ev = PyNone" by blast
  then show ?thesis
    using h esc run scan_keys_none [OF nk]
    by (simp add: gl_step_def Let_def call_def gl_draw_internal_def PeripheralEvent_def
        sdl_to_cv2_keycode_no_key)
       (simp add: idle_poll_def gl_renderer_def)
qed


subsection \<open>The upload protocol\<close>

lemma upload_map_failure:
  "\<not> map_ok env \<Longrightarrow>
   upload env self = (Inl (CudaException ''Unable to map graphics resource''),
                      call CudaGraphicsMapResources self)"
  by (simp add: upload_def Let_def)

lemma upload_copy_failure:
  "map_ok env \<Longrightarrow> get_array_ok env \<Longrightarrow> \<not> copy_ok env \<Longrightarrow>
   upload env self = (Inl (CudaException ''Unable to copy from tensor to texture''),
     self\<lparr>gpu_calls := gpu_calls self @
        [CudaGraphicsMapResources, CudaGraphicsSubResourceGetMappedArray,
         CudaMemcpy2DToArrayAsync (4 * 4 * width self) (height self)]\<rparr>)"
  by (simp add: upload_def Let_def call_def)

lemma normalize_white_pixel:
  "normalize white_pixel = Inr \<lparr>shape = [1, 1, 4], elems = [1, 1, 1, 1]\<rparr>"
  by (simp add: white_pixel_def normalize_def permute_1_0_2_def torch_clamp_def float_div_255_def
      check_channels_def upt_rec)

lemma gl_renderer_fields:
  "running gl_renderer" "cuda_is_setup gl_renderer" "backend gl_renderer = GL"
  "width gl_renderer = 1" "height gl_renderer = 1" "gpu_calls gl_renderer = []"
  by (simp_all add: gl_renderer_def)

text \<open>
  C1 (amended). The upload stops at the first call that fails. When the map fails, only
  the map has been called: no array fetch, no copy, no unmap. When the array fetch fails,
  only map and get-mapped-array have been called. When the copy fails after a successful
  map and array fetch, the error is raised at once, after exactly map, get-mapped-array
  and copy: unmap is not called. Unmap is called, once and last, exactly when the three
  calls before it have succeeded.
\<close>

theorem upload_aborts_at_first_failure:
  "(\<not> map_ok env \<longrightarrow>
      upload env self =
        (Inl (CudaException ''Unable to map graphics resource''),
         self\<lparr>gpu_calls := gpu_calls self @ [CudaGraphicsMapResources]\<rparr>))
   \<and> (map_ok env \<and> \<not> get_array_ok env \<longrightarrow>
      upload env self =
        (Inl (CudaException ''Unable to get mapped array''),
         self\<lparr>gpu_calls := gpu_calls self @
            [CudaGraphicsMapResources, CudaGraphicsSubResourceGetMappedArray]\<rparr>))
   \<and> (map_ok env \<and> get_array_ok env \<and> \<not> copy_ok env \<longrightarrow>
      upload env self =
        (Inl (CudaException ''Unable to copy from tensor to texture''),
         self\<lparr>gpu_calls := gpu_calls self @
            [CudaGraphicsMapResources, CudaGraphicsSubResourceGetMappedArray,
             CudaMemcpy2DToArrayAsync (4 * 4 * width self) (height self)]\<rparr>))
   \<and> (map_ok env \<and> get_array_ok env \<and> copy_ok env \<longrightarrow>
      upload env self =
        (if unmap_ok env then Inr ()
         else Inl (CudaException ''Unable to unmap graphics resource''),
         self\<lparr>gpu_calls := gpu_calls self @
            [CudaGraphicsMapResources, CudaGraphicsSubResourceGetMappedArray,
             CudaMemcpy2DToArrayAsync (4 * 4 * width self) (height self),
             CudaGraphicsUnmapResources]\<rparr>))
   \<and> (map_ok env \<and> get_array_ok env \<and> copy_ok env \<longrightarrow>
      gpu_calls (snd (upload env self)) = gpu_calls self @
            [CudaGraphicsMapResources, CudaGraphicsSubResourceGetMappedArray,
             CudaMemcpy2DToArrayAsync (4 * 4 * width self) (height self),
             CudaGraphicsUnmapResources])
   \<and> count_list (gpu_calls (snd (upload env self))) CudaGraphicsUnmapResources =
       count_list (gpu_calls self) CudaGraphicsUnmapResources
       + (if map_ok env \<and> get_array_ok env \<and> copy_ok env then 1 else 0)"
  using upload_map_failure [of env self] upload_copy_failure [of env self]
  by (auto simp: upload_def Let_def call_def)

theorem upload_aborts_at_first_failure_witness:
  "upload (ok_env\<lparr>map_ok := False\<rparr>) gl_renderer =
     (Inl (CudaException ''Unable to map graphics resource''),
      gl_renderer\<lparr>gpu_calls := [CudaGraphicsMapResources]\<rparr>)
   \<and> upload (ok_env\<lparr>get_array_ok := False\<rparr>) gl_renderer =
     (Inl (CudaException ''Unable to get mapped array''),
      gl_renderer\<lparr>gpu_calls := [CudaGraphicsMapResources,
         CudaGraphicsSubResourceGetMappedArray]\<rparr>)
   \<and> upload (ok_env\<lparr>copy_ok := False\<rparr>) gl_renderer =
     (Inl (CudaException ''Unable to copy from tensor to texture''),
      gl_renderer\<lparr>gpu_calls := [CudaGraphicsMapResources,
         CudaGraphicsSubResourceGetMappedArray, CudaMemcpy2DToArrayAsync 16 1]\<rparr>)
   \<and> upload ok_env gl_renderer =
     (Inr (),
      gl_renderer\<lparr>gpu_calls := [CudaGraphicsMapResources, CudaGraphicsSubResourceGetMappedArray,
         CudaMemcpy2DToArrayAsync 16 1, CudaGraphicsUnmapResources]\<rparr>)"
  using upload_aborts_at_first_failure [of "ok_env\<lparr>map_ok := False\<rparr>" gl_renderer]
    upload_aborts_at_first_failure [of "ok_env\<lparr>get_array_ok := False\<rparr>" gl_renderer]
    upload_aborts_at_first_failure [of "ok_env\<lparr>copy_ok := False\<rparr>" gl_renderer]
    upload_aborts_at_first_failure [of ok_env gl_renderer]
  by (simp add: ok_env_def gl_renderer_fields)

text \<open>
  C1 as stated fails: when the map and the array fetch succeed and the copy fails,
  \<^verbatim>\<open>gl_render\<close> raises right after the copy. The calls made are map, get-mapped-array
  and copy; unmap is never called.
\<close>

theorem gl_render_copy_failure_leaves_mapped:
  "gl_render (ok_env\<lparr>copy_ok := False\<rparr>) rgba_1x1 gl_renderer =
     (Inl (CudaException ''Unable to copy from tensor to texture''),
      gl_renderer\<lparr>gpu_calls :=
        [CudaGraphicsMapResources, CudaGraphicsSubResourceGetMappedArray,
         CudaMemcpy2DToArrayAsync 16 1]\<rparr>)
   \<and> count_list (gpu_calls (snd (gl_render (ok_env\<lparr>copy_ok := False\<rparr>) rgba_1x1 gl_renderer)))
        CudaGraphicsUnmapResources = 0"
proof -
  have up: "upload (ok_env\<lparr>copy_ok := False\<rparr>) gl_renderer =
     (Inl (CudaException ''Unable to copy from tensor to texture''),
      gl_renderer\<lparr>gpu_calls :=
        [CudaGraphicsMapResources, CudaGraphicsSubResourceGetMappedArray,
         CudaMemcpy2DToArrayAsync 16 1]\<rparr>)"
    by (simp add: upload_copy_failure ok_env_def gl_renderer_fields)
  have r: "gl_render (ok_env\<lparr>copy_ok := False\<rparr>) rgba_1x1 gl_renderer =
     (Inl (CudaException ''Unable to copy from tensor to texture''),
      gl_renderer\<lparr>gpu_calls :=
        [CudaGraphicsMapResources, CudaGraphicsSubResourceGetMappedArray,
         CudaMemcpy2DToArrayAsync 16 1]\<rparr>)"
    by (simp add: gl_render_def place_on_gpu_def rgba_1x1_def normalize_white_pixel up
        gl_renderer_fields)
  show ?thesis by (simp add: r)
qed

subsection \<open>Normalisation\<close>

lemma normalize_rank2: "shape t = [h, w] \<Longrightarrow> normalize t = Inl TorchRuntimeError"
  by (simp add: normalize_def permute_1_0_2_def torch_clamp_def float_div_255_def)

lemma place_on_gpu_cases:
  "place_on_gpu env img self =
     (case tensor_of img of
        None \<Rightarrow> (Inl (Exception ''render function received input of unknown type''), self)
      | Some t \<Rightarrow>
          (case conversion_error img of
             Some e \<Rightarrow> (Inl e, self)
           | None \<Rightarrow>
               if on_host img
               then (case to_cuda_error env of
                       Some e \<Rightarrow> (Inl e, call ToCuda self)
                     | None \<Rightarrow> (Inr t, call ToCuda self))
               else (Inr t, self)))"
  by (cases img)
     (auto simp: place_on_gpu_def tensor_of_def conversion_error_def on_host_def to_cuda_def
        from_numpy_def split: option.splits sum.splits)

text \<open>
  C3. A grayscale input of shape (h, w), whatever its type, never reaches the channel
  broadcast: \<^verbatim>\<open>permute((1,0,2))\<close> raises on a tensor of two dimensions, so \<^verbatim>\<open>gl_render\<close>
  ends in a RuntimeError and produces no buffer (for an input in host memory whose
  transfer to the GPU fails, it ends in the error of the transfer, earlier still).
\<close>

theorem gl_render_grayscale_raises:
  "fst (gl_render env (NdArray (plain_array (np_full [h, w] 255))) self) =
      Inl (case to_cuda_error env of None \<Rightarrow> TorchRuntimeError | Some e \<Rightarrow> e)
   \<and> fst (gl_render env (PILImage (plain_array (np_full [h, w] 255))) self) =
      Inl (case to_cuda_error env of None \<Rightarrow> TorchRuntimeError | Some e \<Rightarrow> e)
   \<and> fst (gl_render env (TorchTensor CPU (np_full [h, w] 255)) self) =
      Inl (case to_cuda_error env of None \<Rightarrow> TorchRuntimeError | Some e \<Rightarrow> e)
   \<and> fst (gl_render env (TorchTensor CUDA (np_full [h, w] 255)) self) = Inl TorchRuntimeError
   \<and> normalize (np_full [h, w] 255) = Inl TorchRuntimeError"
proof -
  have n: "normalize (np_full [h, w] 255) = Inl TorchRuntimeError"
    by (rule normalize_rank2 [of _ h w]) (simp add: np_full_def)
  show ?thesis
    by (simp add: gl_render_def place_on_gpu_def to_cuda_def from_numpy_def plain_array_def n
        split: option.splits)
qed

lemma normalize_5_channels:
  "shape t = [h, w, 5] \<Longrightarrow>
   normalize t = Inl (Exception ''render function received the wrong number of channels'')"
  by (simp add: normalize_def permute_1_0_2_def torch_clamp_def float_div_255_def
      check_channels_def)

lemma gl_render_five_channels:
  assumes "tensor_of img = Some t" and "shape t = [h, w, 5]"
  shows "gl_render env img self =
     (case conversion_error img of
        Some e \<Rightarrow> (Inl e, self)
      | None \<Rightarrow>
          if on_host img
          then (case to_cuda_error env of
                  Some e \<Rightarrow> (Inl e, call ToCuda self)
                | None \<Rightarrow>
                    (Inl (Exception ''render function received the wrong number of channels''),
                     call ToCuda self))
          else (Inl (Exception ''render function received the wrong number of channels''), self))"
  using assms(1) normalize_5_channels [OF assms(2)]
  by (simp add: gl_render_def place_on_gpu_cases split: option.splits)

text \<open>
  C4 (amended). On the GPU backend an image of shape (h, w, 5) makes \<^verbatim>\<open>render\<close> raise
  before any call of the interop protocol, of CUDA setup or of presentation. An image in
  host memory is converted and transferred to the GPU first: when \<^verbatim>\<open>torch.from_numpy\<close>
  refuses the array, its error is raised and nothing has reached the GPU; when the
  transfer raises, that error is raised. Otherwise the error is the
  wrong-number-of-channels error, raised after the transfer of a host image, and with no
  GPU call at all only for an image that is on the device already.
\<close>

theorem render_5_channels:
  assumes "backend self = GL" and "tensor_of img = Some t" and "shape t = [h, w, 5]"
  shows "render env img self =
     (case conversion_error img of
        Some e \<Rightarrow> (Inl e, self)
      | None \<Rightarrow>
          if on_host img
          then (case to_cuda_error env of
                  Some e \<Rightarrow> (Inl e, call ToCuda self)
                | None \<Rightarrow>
                    (Inl (Exception ''render function received the wrong number of channels''),
                     call ToCuda self))
          else (Inl (Exception ''render function received the wrong number of channels''), self))"
  using assms(1) gl_render_five_channels [OF assms(2,3)] by (simp add: render_def)

theorem render_5_channels_witness:
  "backend gl_renderer = GL
   \<and> shape (np_full [2, 3, 5] 7) = [2, 3, 5]
   \<and> render ok_env (TorchTensor CUDA (np_full [2, 3, 5] 7)) gl_renderer =
       (Inl (Exception ''render function received the wrong number of channels''), gl_renderer)
   \<and> render ok_env (NdArray (plain_array (np_full [2, 3, 5] 7))) gl_renderer =
       (Inl (Exception ''render function received the wrong number of channels''),
        gl_renderer\<lparr>gpu_calls := [ToCuda]\<rparr>)
   \<and> render ok_env (NdArray ((plain_array (np_full [2, 3, 5] 7))\<lparr>refused_layout := True\<rparr>))
        gl_renderer = (Inl TorchValueError, gl_renderer)
   \<and> render (ok_env\<lparr>to_cuda_error := Some TorchRuntimeError\<rparr>)
        (NdArray (plain_array (np_full [2, 3, 5] 7))) gl_renderer =
       (Inl TorchRuntimeError, gl_renderer\<lparr>gpu_calls := [ToCuda]\<rparr>)"
proof -
  have t1: "tensor_of (TorchTensor CUDA (np_full [2, 3, 5] 7)) = Some (np_full [2, 3, 5] 7)"
    and t2: "tensor_of (NdArray (plain_array (np_full [2, 3, 5] 7))) = Some (np_full [2, 3, 5] 7)"
    and t3: "tensor_of (NdArray ((plain_array (np_full [2, 3, 5] 7))\<lparr>refused_layout := True\<rparr>))
               = Some (np_full [2, 3, 5] 7)"
    and sh: "shape (np_full [2, 3, 5] 7) = [2, 3, 5]"
    by (simp_all add: tensor_of_def np_full_def plain_array_def)
  have b: "backend gl_renderer = GL" by (simp add: gl_renderer_fields)
  show ?thesis
    using b sh render_5_channels [OF b t1 sh, of ok_env]
      render_5_channels [OF b t2 sh, of ok_env]
      render_5_channels [OF b t3 sh, of ok_env]
      render_5_channels [OF b t2 sh, of "ok_env\<lparr>to_cuda_error := Some TorchRuntimeError\<rparr>"]
    by (simp add: on_host_def conversion_error_def from_numpy_def plain_array_def call_def
        gl_renderer_fields ok_env_def)
qed

text \<open>
  C4 as stated fails: a numpy array of shape (1, 1, 5) that converts is transferred to
  the GPU before the error is raised.
\<close>

theorem render_5_channels_after_transfer:
  "fst (render ok_env (NdArray (plain_array (np_full [1, 1, 5] 0))) gl_renderer) =
      Inl (Exception ''render function received the wrong number of channels'')
   \<and> gpu_calls (snd (render ok_env (NdArray (plain_array (np_full [1, 1, 5] 0))) gl_renderer))
       = [ToCuda]
   \<and> gpu_calls gl_renderer = []"
proof -
  have "normalize (np_full [1, 1, 5] 0) =
          Inl (Exception ''render function received the wrong number of channels'')"
    by (rule normalize_5_channels [of _ 1 1]) (simp add: np_full_def)
  then show ?thesis
    by (simp add: render_def gl_render_def place_on_gpu_def to_cuda_def from_numpy_def
        plain_array_def call_def gl_renderer_fields ok_env_def)
qed

subsection \<open>The event returned\<close>

lemma gl_step_keycode:
  "gl_step env self = (Inr ev, self') \<Longrightarrow> keycode ev = - 1 \<and> pressed_key_code ev \<noteq> Unset"
  by (auto simp: gl_step_def PeripheralEvent_def
      split: if_splits prod.splits sum.splits option.splits)

lemma cv2_render_keycode:
  "cv2_render env img self = (Inr ev, self') \<Longrightarrow> keycode ev = - 1 \<and> pressed_key_code ev \<noteq> Unset"
  by (cases img) (auto simp: cv2_render_def PeripheralEvent_def Let_def split: if_splits)

lemma gl_render_keycode:
  "gl_render env img self = (Inr (Some ev), self') \<Longrightarrow>
   keycode ev = - 1 \<and> pressed_key_code ev \<noteq> Unset"
  by (auto simp: gl_render_def split: prod.splits sum.splits if_splits dest: gl_step_keycode)

text \<open>
  C10. Whenever \<^verbatim>\<open>render\<close> returns an event, on either backend, the \<^verbatim>\<open>keycode\<close>
  attribute of the event is -1, as the constructor left it: the key goes to the
  attribute \<^verbatim>\<open>pressed_key_code\<close>, which is always assigned.
\<close>

theorem render_keycode_stays_minus_1:
  assumes "fst (render env img self) = Inr (Some ev)"
  shows "keycode ev = - 1 \<and> pressed_key_code ev \<noteq> Unset"
proof (cases "backend self = GL")
  case True
  with assms obtain self' where "gl_render env img self = (Inr (Some ev), self')"
    by (cases "gl_render env img self") (simp add: render_def)
  then show ?thesis by (rule gl_render_keycode)
next
  case False
  with assms obtain self' where "cv2_render env img self = (Inr ev, self')"
    by (cases "cv2_render env img self") (auto simp: render_def split: sum.splits)
  then show ?thesis by (rule cv2_render_keycode)
qed

theorem render_keycode_stays_minus_1_witness:
  "fst (render (ok_env\<lparr>cv2_key := 97\<rparr>) rgba_1x1 (gl_renderer\<lparr>backend := OpenCV\<rparr>)) =
     Inr (Some \<lparr>keycode = - 1, mouse_button_state = - 1, mouse_posX = - 1, mouse_posY = - 1,
                pressed_key_code = PyInt 97\<rparr>)
   \<and> fst (render (ok_env\<lparr>polls := [key_a_poll]\<rparr>) rgba_1x1 gl_renderer) =
     Inr (Some \<lparr>keycode = - 1, mouse_button_state = 0, mouse_posX = 0, mouse_posY = 0,
                pressed_key_code = PyInt 97\<rparr>)"
proof -
  have cv: "fst (render (ok_env\<lparr>cv2_key := 97\<rparr>) rgba_1x1 (gl_renderer\<lparr>backend := OpenCV\<rparr>)) =
     Inr (Some \<lparr>keycode = - 1, mouse_button_state = - 1, mouse_posX = - 1, mouse_posY = - 1,
                pressed_key_code = PyInt 97\<rparr>)"
    by (simp add: render_def cv2_render_def rgba_1x1_def gl_renderer_def ok_env_def Let_def
        PeripheralEvent_def)
  have sc: "scan_keys (key_states key_a_poll) (\<lambda>k. 0) (- 1) = 4"
    using scan_keys_single [of 4 "- 1"] by (simp add: key_a_poll_def SDL_NUM_SCANCODES_def)
  have a: "sdl_to_cv2_keycode 4 = Some 97"
    using sdl_to_cv2_keycode_letters [of 0] by (simp add: SDL_SCANCODE_A_def)
  have esc: "\<not> key_states key_a_poll (nat SDL_SCANCODE_ESCAPE)"
    by (simp add: key_a_poll_def SDL_SCANCODE_ESCAPE_def)
  have st: "\<And>r. running r \<Longrightarrow> fst (gl_step (ok_env\<lparr>polls := [key_a_poll]\<rparr>) r) =
       Inr \<lparr>keycode = - 1, mouse_button_state = 0, mouse_posX = 0, mouse_posY = 0,
                pressed_key_code = PyInt 97\<rparr>"
    using esc by (simp add: gl_step_def Let_def sc a PeripheralEvent_def)
                 (simp add: key_a_poll_def)
  have up: "upload (ok_env\<lparr>polls := [key_a_poll]\<rparr>) gl_renderer =
      (Inr (), gl_renderer\<lparr>gpu_calls := [CudaGraphicsMapResources,
          CudaGraphicsSubResourceGetMappedArray, CudaMemcpy2DToArrayAsync 16 1,
          CudaGraphicsUnmapResources]\<rparr>)"
    by (simp add: upload_def ok_env_def Let_def call_def gl_renderer_fields)
  have run: "running (gl_renderer\<lparr>gpu_calls := [CudaGraphicsMapResources,
          CudaGraphicsSubResourceGetMappedArray, CudaMemcpy2DToArrayAsync 16 1,
          CudaGraphicsUnmapResources]\<rparr>)"
    by (simp add: gl_renderer_fields)
  have gl: "fst (render (ok_env\<lparr>polls := [key_a_poll]\<rparr>) rgba_1x1 gl_renderer) =
     Inr (Some \<lparr>keycode = - 1, mouse_button_state = 0, mouse_posX = 0, mouse_posY = 0,
                pressed_key_code = PyInt 97\<rparr>)"
    using st [OF run]
    by (auto simp: render_def gl_render_def place_on_gpu_def rgba_1x1_def normalize_white_pixel up
        gl_renderer_fields split: prod.splits sum.splits)
  show ?thesis
    using cv gl render_keycode_stays_minus_1 [OF cv] render_keycode_stays_minus_1 [OF gl]
    by simp
qed



end
